theory Spec2Isabelle
  imports Complex_Main "HOL-Library.Sublist"
begin

section \<open>JavaScript strings\<close>

text \<open>
  A JavaScript string is a sequence of UTF-16 code units; a code unit is modelled by its
  number. \<open>js\<close> turns an ASCII literal of the source into such a sequence.
\<close>

type_synonym jsstring = "nat list"

definition js :: "string \<Rightarrow> jsstring" where
  "js s = map of_char s"

text \<open>\<open>Array.prototype.join\<close> on an array of strings.\<close>

fun join :: "jsstring \<Rightarrow> jsstring list \<Rightarrow> jsstring" where
  "join sep [] = []"
| "join sep [x] = x"
| "join sep (x # y # ys) = x @ sep @ join sep (y # ys)"

text \<open>
  \<open>String.prototype.trim\<close> removes the code units of WhiteSpace and LineTerminator
  from both ends: TAB, LF, VT, FF, CR, SP, NBSP, U+1680, U+2000 to U+200A, U+2028,
  U+2029, U+202F, U+205F, U+3000 and U+FEFF.
\<close>

definition isWhiteSpace :: "nat \<Rightarrow> bool" where
  "isWhiteSpace c \<longleftrightarrow>
     c = 9 \<or> c = 10 \<or> c = 11 \<or> c = 12 \<or> c = 13 \<or> c = 32 \<or> c = 160 \<or> c = 5760
     \<or> (8192 \<le> c \<and> c \<le> 8202) \<or> c = 8232 \<or> c = 8233 \<or> c = 8239 \<or> c = 8287
     \<or> c = 12288 \<or> c = 65279"

definition trim :: "jsstring \<Rightarrow> jsstring" where
  "trim s = rev (dropWhile isWhiteSpace (rev (dropWhile isWhiteSpace s)))"

text \<open>\<open>s.includes(pat)\<close>: \<open>pat\<close> occurs in \<open>s\<close> as a contiguous run.\<close>

fun str_includes :: "jsstring \<Rightarrow> jsstring \<Rightarrow> bool" where
  "str_includes [] pat = (pat = [])"
| "str_includes (c # cs) pat = (prefix pat (c # cs) \<or> str_includes cs pat)"

text \<open>
  \<open>s.replace(pat, rep)\<close> with a string pattern: the first occurrence of \<open>pat\<close> is
  replaced. The source only replaces by the empty string, so the \<open>$\<close> patterns of
  the replacement text play no part.
\<close>

fun str_replace :: "jsstring \<Rightarrow> jsstring \<Rightarrow> jsstring \<Rightarrow> jsstring" where
  "str_replace [] pat rep = (if pat = [] then rep else [])"
| "str_replace (c # cs) pat rep =
     (if prefix pat (c # cs) then rep @ drop (length pat) (c # cs)
      else c # str_replace cs pat rep)"

text \<open>
  The regular expression \<open>/^(Assistant:|Let me respond naturally to that\.?)/i\<close>.
  With the \<open>i\<close> flag and no \<open>u\<close> flag a code unit matches an ASCII character of the
  pattern exactly when both have the same ASCII upper case: the canonicalisation never
  maps a code unit from 128 on to an ASCII one.
\<close>

definition toUpperAscii :: "nat \<Rightarrow> nat" where
  "toUpperAscii c = (if 97 \<le> c \<and> c \<le> 122 then c - 32 else c)"

definition matchesIgnoreCase :: "jsstring \<Rightarrow> jsstring \<Rightarrow> bool" where
  "matchesIgnoreCase pat s \<longleftrightarrow> prefix (map toUpperAscii pat) (map toUpperAscii s)"

definition stripArtifact :: "jsstring \<Rightarrow> jsstring" where
  "stripArtifact s =
     (if matchesIgnoreCase (js ''Assistant:'') s then drop (length (js ''Assistant:'')) s
      else if matchesIgnoreCase (js ''Let me respond naturally to that'') s then
        (case drop (length (js ''Let me respond naturally to that'')) s of
           [] \<Rightarrow> []
         | c # r \<Rightarrow> if c = 46 then r else c # r)
      else s)"

section \<open>JSON values\<close>

text \<open>
  The values \<open>JSON.parse\<close> and \<open>response.json()\<close> produce. A number is a double:
  \<open>JNum q\<close> is the finite double whose exact value is \<open>q\<close>, and \<open>JInfinity negative\<close>
  is one of the two infinities, which a literal beyond the range of the doubles rounds
  to. The two zeros are the one \<open>JNum 0\<close>: the source never tells them apart. An object
  is the list of its members.
\<close>

datatype json =
    JNull
  | JBool bool
  | JNum rat
  | JInfinity bool
  | JStr jsstring
  | JArr "json list"
  | JObj "(jsstring \<times> json) list"

text \<open>Truthiness of a value, as \<open>if (v)\<close> and \<open>&&\<close> test it.\<close>

fun truthy :: "json \<Rightarrow> bool" where
  "truthy JNull = False"
| "truthy (JBool b) = b"
| "truthy (JNum q) = (q \<noteq> 0)"
| "truthy (JInfinity negative) = True"
| "truthy (JStr s) = (s \<noteq> [])"
| "truthy (JArr xs) = True"
| "truthy (JObj ms) = True"

text \<open>
  Reading a member of a value that is not \<open>null\<close>; \<open>None\<close> is \<open>undefined\<close>. Only
  objects have members under the names the source reads (\<open>generated_text\<close> and the
  fields of a report).
\<close>

fun getMember :: "json \<Rightarrow> jsstring \<Rightarrow> json option" where
  "getMember (JObj ms) k = map_of ms k"
| "getMember v k = None"

section \<open>Messages and the state of the conversation provider\<close>

text \<open>
  Modelled from the spec: the declarations of \<open>Message\<close> and \<open>Report\<close> in
  \<open>src/types\<close> are not part of the sources; the fields are those of the object literals
  in \<open>ConversationContext.tsx\<close> and of section 3 of the specification.
\<close>

datatype sender = User | Bot

record Message =
  id_msg :: jsstring
  content :: jsstring
  sender :: sender
  timestamp :: jsstring

datatype role = RoleUser | RoleModel

record MessageInput =
  role :: role
  content :: jsstring

text \<open>
  The state cells of \<open>ConversationProvider\<close>. \<open>report\<close> has the declared type
  \<open>Report | null\<close> and holds whatever \<open>setReport\<close> was given; \<open>JNull\<close> is \<open>null\<close>.
  \<open>messagesRef\<close> is the cell \<open>messagesRef.current\<close>.
\<close>

record ConversationState =
  messages :: "Message list"
  isLoading :: bool
  report :: json
  isReportGenerating :: bool
  conversationStarted :: bool
  error :: "jsstring option"
  messagesRef :: "Message list"

section \<open>The Hugging Face adapter\<close>

datatype js_error = NetworkError | SyntaxError | ApiError nat | TypeError

text \<open>\<open>xs.pop()\<close> on a fresh array: its last element, \<open>undefined\<close> when it is empty.\<close>

definition pop :: "'a list \<Rightarrow> 'a option" where
  "pop xs = (if xs = [] then None else Some (last xs))"

text \<open>
  Lines 15 to 20 of \<open>generateContentFromHF\<close>. Appending \<open>undefined\<close> to a string
  appends the text \<open>undefined\<close>.
\<close>

definition buildPrompt :: "MessageInput list \<Rightarrow> jsstring \<Rightarrow> jsstring" where
  "buildPrompt msgs systemPrompt =
     join [10]
       [js ''You are a supportive and empathetic mental health chatbot. Respond naturally and briefly to the user's message.'',
        [],
        js ''User: '' @
          (case pop (filter (\<lambda>msg. role msg = RoleUser) msgs) of
             None \<Rightarrow> js ''undefined''
           | Some msg \<Rightarrow> MessageInput.content msg),
        js ''Assistant:'']"

text \<open>The request of lines 22 to 36; the API key comes from the build environment.\<close>

record HFRequest =
  url :: jsstring
  http_method :: jsstring
  authorization :: jsstring
  contentType :: jsstring
  inputs :: jsstring
  max_new_tokens :: nat
  temperature :: rat
  return_full_text :: bool

definition HF_API_URL :: jsstring where
  "HF_API_URL = js ''https://api-inference.huggingface.co/models/mistralai/Mixtral-8x7B-Instruct-v0.1''"

definition buildRequest :: "jsstring \<Rightarrow> MessageInput list \<Rightarrow> jsstring \<Rightarrow> HFRequest" where
  "buildRequest apiKey msgs systemPrompt =
     \<lparr>url = HF_API_URL,
      http_method = js ''POST'',
      authorization = js ''Bearer '' @ apiKey,
      contentType = js ''application/json'',
      inputs = buildPrompt msgs systemPrompt,
      max_new_tokens = 150,
      temperature = 7 / 10,
      return_full_text = False\<rparr>"

text \<open>
  What \<open>fetch\<close> comes back with: it rejects, or it resolves to a response with a status
  and a body; the body is \<open>None\<close> when \<open>response.json()\<close> rejects it.
\<close>

datatype fetch_outcome = FetchRejects | FetchResponse nat "json option"

definition response_ok :: "nat \<Rightarrow> bool" where
  "response_ok status \<longleftrightarrow> 200 \<le> status \<and> status \<le> 299"

text \<open>\<open>Array.isArray(data) && data[0]?.generated_text\<close>, \<open>None\<close> when it is falsy.\<close>

fun firstGenerated :: "json \<Rightarrow> json option" where
  "firstGenerated (JArr (x # xs)) =
     (if x = JNull then None
      else case getMember x (js ''generated_text'') of
             None \<Rightarrow> None
           | Some g \<Rightarrow> if truthy g then Some g else None)"
| "firstGenerated v = None"

text \<open>
  Lines 57 to 70 on the extracted value. A truthy value that is not a string has no
  callable \<open>includes\<close> and \<open>replace\<close> pair (an array has \<open>includes\<close> but no
  \<open>replace\<close>), so the calls throw a TypeError.
\<close>

definition cleanGenerated :: "jsstring \<Rightarrow> json \<Rightarrow> js_error + jsstring" where
  "cleanGenerated prompt g =
     (case g of
        JStr generatedText \<Rightarrow>
          (let t1 = (if str_includes generatedText prompt
                     then trim (str_replace generatedText prompt [])
                     else generatedText);
               t2 = trim (stripArtifact t1)
           in Inr (if t2 = [] then js ''I'm glad to hear from you! How can I help you today?''
                   else t2))
      | _ \<Rightarrow> Inl TypeError)"

text \<open>
  \<open>generateContentFromHF\<close> from line 38 on, given the prompt it sent and what \<open>fetch\<close>
  came back with. \<open>Inl\<close> is a thrown error.
\<close>

definition generateContentFromHF_resume :: "jsstring \<Rightarrow> fetch_outcome \<Rightarrow> js_error + jsstring" where
  "generateContentFromHF_resume prompt outcome =
     (case outcome of
        FetchRejects \<Rightarrow> Inl NetworkError
      | FetchResponse status body \<Rightarrow>
          if \<not> response_ok status then
            (case body of None \<Rightarrow> Inl SyntaxError | Some errorData \<Rightarrow> Inl (ApiError status))
          else
            (case body of
               None \<Rightarrow> Inl SyntaxError
             | Some data \<Rightarrow>
                 (case firstGenerated data of
                    Some g \<Rightarrow> cleanGenerated prompt g
                  | None \<Rightarrow>
                      if data = JNull then Inl TypeError
                      else
                        (case getMember data (js ''generated_text'') of
                           None \<Rightarrow> Inr (js ''Sorry, I couldn't generate a response.'')
                         | Some g \<Rightarrow>
                             if truthy g then cleanGenerated prompt g
                             else Inr (js ''Sorry, I couldn't generate a response.'')))))"

section \<open>sendMessage\<close>

definition toTurn :: "Message \<Rightarrow> MessageInput" where
  "toTurn msg =
     \<lparr>role = (if sender msg = User then RoleUser else RoleModel),
      content = Message.content msg\<rparr>"

definition chatSystemPrompt :: jsstring where
  "chatSystemPrompt = js ''You are a supportive and empathetic mental health chatbot. Your responses should be natural, brief (2-3 sentences), and focused on the user's immediate message. Offer relevant suggestions when appropriate. Never repeat the prompt or conversation format in your response.''"

text \<open>
  \<open>sendMessage\<close> up to its \<open>await\<close>: the new state and the arguments of the call to
  \<open>generateContentFromHF\<close>, or the unchanged state and no call. \<open>uid\<close> is what
  \<open>uuidv4()\<close> returns and \<open>now\<close> what \<open>new Date().toISOString()\<close> returns.
\<close>

definition sendMessage_begin ::
  "jsstring \<Rightarrow> jsstring \<Rightarrow> jsstring \<Rightarrow> 'a ConversationState_scheme
     \<Rightarrow> 'a ConversationState_scheme \<times> (MessageInput list \<times> jsstring) option" where
  "sendMessage_begin str uid now s =
     (if trim str = [] then (s, None)
      else
        let userMessage = \<lparr>id_msg = uid, content = str, sender = User, timestamp = now\<rparr>;
            s1 = s\<lparr>messages := messages s @ [userMessage], isLoading := True, error := None\<rparr>;
            allMessages = messagesRef s @ [userMessage];
            conversationHistory = map toTurn allMessages
        in (s1, Some (conversationHistory, chatSystemPrompt)))"

definition apologyMessage :: "jsstring \<Rightarrow> jsstring \<Rightarrow> Message" where
  "apologyMessage uid now =
     \<lparr>id_msg = uid,
      content = js ''I'm sorry, I'm having trouble responding right now. Could you try again?'',
      sender = Bot,
      timestamp = now\<rparr>"

text \<open>
  \<open>sendMessage\<close> after its \<open>await\<close>, on the state of that moment: the \<open>if (response)\<close>
  branch, the \<open>catch\<close> block and the \<open>finally\<close> block.
\<close>

definition sendMessage_resume ::
  "js_error + jsstring \<Rightarrow> jsstring \<Rightarrow> jsstring \<Rightarrow> 'a ConversationState_scheme
     \<Rightarrow> 'a ConversationState_scheme" where
  "sendMessage_resume result uid now s =
     (let s1 =
        (case result of
           Inr response \<Rightarrow>
             if response \<noteq> [] then
               s\<lparr>messages := messages s @
                    [\<lparr>id_msg = uid, content = response, sender = Bot, timestamp = now\<rparr>]\<rparr>
             else s
         | Inl e \<Rightarrow>
             s\<lparr>error := Some (js ''Failed to get response. Please try again.''),
               messages := messages s @ [apologyMessage uid now]\<rparr>)
      in s1\<lparr>isLoading := False\<rparr>)"

text \<open>
  A whole call of \<open>sendMessage\<close> with nothing else happening in between: \<open>uid\<close> and
  \<open>now\<close> for the user message, \<open>outcome\<close> for what \<open>fetch\<close> came back with, \<open>uid'\<close> and
  \<open>now'\<close> for the bot message.
\<close>

definition sendMessage ::
  "jsstring \<Rightarrow> jsstring \<Rightarrow> jsstring \<Rightarrow> fetch_outcome \<Rightarrow> jsstring \<Rightarrow> jsstring
     \<Rightarrow> 'a ConversationState_scheme \<Rightarrow> 'a ConversationState_scheme" where
  "sendMessage str uid now outcome uid' now' s =
     (case sendMessage_begin str uid now s of
        (s1, None) \<Rightarrow> s1
      | (s1, Some (history, systemPrompt)) \<Rightarrow>
          sendMessage_resume
            (generateContentFromHF_resume (buildPrompt history systemPrompt) outcome)
            uid' now' s1)"


section \<open>JSON.parse\<close>

text \<open>
  \<open>JSON.parse\<close> belongs to the platform; it is modelled after the JSON grammar of
  ECMA-404: the text is cut into tokens, and the tokens are read by a machine with a
  stack of the arrays and objects that are still open. \<open>None\<close> is the SyntaxError.
\<close>

datatype token =
    TLBrace | TRBrace | TLBrack | TRBrack | TColon | TComma
  | TString jsstring | TNumber json | TTrue | TFalse | TNull

definition isJsonWhiteSpace :: "nat \<Rightarrow> bool" where
  "isJsonWhiteSpace c \<longleftrightarrow> c = 9 \<or> c = 10 \<or> c = 13 \<or> c = 32"

definition isDigit :: "nat \<Rightarrow> bool" where
  "isDigit c \<longleftrightarrow> 48 \<le> c \<and> c \<le> 57"

definition hexValue :: "nat \<Rightarrow> nat option" where
  "hexValue c =
     (if 48 \<le> c \<and> c \<le> 57 then Some (c - 48)
      else if 97 \<le> c \<and> c \<le> 102 then Some (c - 87)
      else if 65 \<le> c \<and> c \<le> 70 then Some (c - 55)
      else None)"

definition escapeValue :: "nat \<Rightarrow> nat option" where
  "escapeValue e =
     (if e = 34 then Some 34
      else if e = 92 then Some 92
      else if e = 47 then Some 47
      else if e = 98 then Some 8
      else if e = 102 then Some 12
      else if e = 110 then Some 10
      else if e = 114 then Some 13
      else if e = 116 then Some 9
      else None)"

text \<open>
  The Number value of a positive fraction \<open>n / d\<close>: the double nearest to it, the one
  with the even significand when two are equally near, and no finite double (\<open>None\<close>,
  which is Infinity) when that rounding reaches \<open>2 ^ 1024\<close>. \<open>binaryExponent n d\<close> is the
  \<open>e\<close> with \<open>2 ^ e \<le> n / d < 2 ^ (e + 1)\<close>, found from the lengths of \<open>n\<close> and \<open>d\<close> in
  bits. A double has 53 significant bits and no exponent below \<open>- 1022\<close>, so the
  fraction is rounded to a multiple of \<open>2 ^ p\<close> for \<open>p = max e (- 1022) - 52\<close>.
\<close>

fun bitLength :: "nat \<Rightarrow> nat" where
  "bitLength n = (if n = 0 then 0 else Suc (bitLength (n div 2)))"

declare bitLength.simps [simp del]

definition atLeastPowerOfTwo :: "nat \<Rightarrow> nat \<Rightarrow> int \<Rightarrow> bool" where
  "atLeastPowerOfTwo n d e \<longleftrightarrow>
     (if 0 \<le> e then d * 2 ^ nat e \<le> n else d \<le> n * 2 ^ nat (- e))"

definition binaryExponent :: "nat \<Rightarrow> nat \<Rightarrow> int" where
  "binaryExponent n d =
     (let e = int (bitLength n) - int (bitLength d)
      in if atLeastPowerOfTwo n d e then e else e - 1)"

definition roundHalfEven :: "nat \<Rightarrow> nat \<Rightarrow> nat" where
  "roundHalfEven n d =
     (let f = n div d; r = n mod d
      in if 2 * r < d then f
         else if d < 2 * r then f + 1
         else if even f then f else f + 1)"

definition timesPowerOfTwo :: "nat \<Rightarrow> int \<Rightarrow> rat" where
  "timesPowerOfTwo m p = (if 0 \<le> p then of_nat m * 2 ^ nat p else of_nat m / 2 ^ nat (- p))"

definition roundToDouble :: "nat \<Rightarrow> nat \<Rightarrow> rat option" where
  "roundToDouble n d =
     (if n = 0 then Some 0
      else
        let p = max (binaryExponent n d) (- 1022) - 52;
            m = (if 0 \<le> p then roundHalfEven n (d * 2 ^ nat p)
                 else roundHalfEven (n * 2 ^ nat (- p)) d);
            v = timesPowerOfTwo m p
        in if 2 ^ 1024 \<le> v then None else Some v)"

text \<open>
  A number is the longest run of digits, signs, points and exponent marks; the run has
  to be \<open>-? int frac? exp?\<close> as a whole, since no token of a JSON text may follow a
  number without a separator. Its digits \<open>D\<close> and its decimal exponent \<open>k\<close> (the written
  exponent less the number of fraction digits) give the fraction \<open>D * 10 ^ k\<close>, which is
  rounded to a double. (For a literal of more than 20 significant digits the language
  lets an engine choose between two neighbouring roundings; the nearest double, which
  the engines compute, is always one of the two.)
\<close>

definition digitsValue :: "jsstring \<Rightarrow> nat" where
  "digitsValue ds = foldl (\<lambda>n d. n * 10 + (d - 48)) 0 ds"

definition isNumberChar :: "nat \<Rightarrow> bool" where
  "isNumberChar c \<longleftrightarrow> isDigit c \<or> c = 45 \<or> c = 43 \<or> c = 46 \<or> c = 101 \<or> c = 69"

definition exponentValue :: "jsstring \<Rightarrow> (bool \<times> nat) option" where
  "exponentValue r =
     (case r of
        [] \<Rightarrow> Some (False, 0)
      | c # r1 \<Rightarrow>
          if c = 101 \<or> c = 69 then
            (let neg = (case r1 of [] \<Rightarrow> False | s # r2 \<Rightarrow> s = 45);
                 ds = (case r1 of [] \<Rightarrow> [] | s # r2 \<Rightarrow> if s = 45 \<or> s = 43 then r2 else r1)
             in if ds \<noteq> [] \<and> list_all isDigit ds then Some (neg, digitsValue ds) else None)
          else None)"

definition fractionValue :: "jsstring \<Rightarrow> (jsstring \<times> jsstring) option" where
  "fractionValue r =
     (case r of
        [] \<Rightarrow> Some ([], [])
      | c # r1 \<Rightarrow>
          if c = 46 then
            (let fs = takeWhile isDigit r1
             in if fs = [] then None else Some (fs, dropWhile isDigit r1))
          else Some ([], r))"

definition numberValue :: "jsstring \<Rightarrow> json option" where
  "numberValue run =
     (let neg = (case run of [] \<Rightarrow> False | c # r \<Rightarrow> c = 45);
          r0 = (if neg then tl run else run);
          ip = takeWhile isDigit r0
      in if ip = [] \<or> (hd ip = 48 \<and> tl ip \<noteq> []) then None
         else
           (case fractionValue (dropWhile isDigit r0) of
              None \<Rightarrow> None
            | Some (fs, r1) \<Rightarrow>
                (case exponentValue r1 of
                   None \<Rightarrow> None
                 | Some (eneg, e) \<Rightarrow>
                     (let digits = digitsValue (ip @ fs);
                          k = (if eneg then - int e else int e) - int (length fs);
                          n = (if 0 \<le> k then digits * 10 ^ nat k else digits);
                          d = (if 0 \<le> k then 1 else 10 ^ nat (- k))
                      in Some (case roundToDouble n d of
                                 None \<Rightarrow> JInfinity neg
                               | Some v \<Rightarrow> JNum (if neg then - v else v))))))"

text \<open>
  The tokens of a text. Inside a string (\<open>InString\<close>, with the code units read so far
  in reverse) a backslash starts an escape and a code unit below 32 is an error.
\<close>

datatype lexmode = Top | InString jsstring

function (sequential) jsonTokens :: "lexmode \<Rightarrow> jsstring \<Rightarrow> token list option" where
  "jsonTokens Top [] = Some []"
| "jsonTokens (InString acc) [] = None"
| "jsonTokens (InString acc) (c # cs) =
     (if c = 34 then map_option (Cons (TString (rev acc))) (jsonTokens Top cs)
      else if c = 92 then
        (case cs of
           [] \<Rightarrow> None
         | e # cs1 \<Rightarrow>
             if e = 117 then
               (case cs1 of
                  h1 # h2 # h3 # h4 # cs2 \<Rightarrow>
                    (case (hexValue h1, hexValue h2, hexValue h3, hexValue h4) of
                       (Some a, Some b, Some c', Some d) \<Rightarrow>
                         jsonTokens (InString ((((a * 16 + b) * 16 + c') * 16 + d) # acc)) cs2
                     | _ \<Rightarrow> None)
                | _ \<Rightarrow> None)
             else
               (case escapeValue e of
                  None \<Rightarrow> None
                | Some x \<Rightarrow> jsonTokens (InString (x # acc)) cs1))
      else if c < 32 then None
      else jsonTokens (InString (c # acc)) cs)"
| "jsonTokens Top (c # cs) =
     (if isJsonWhiteSpace c then jsonTokens Top cs
      else if c = 123 then map_option (Cons TLBrace) (jsonTokens Top cs)
      else if c = 125 then map_option (Cons TRBrace) (jsonTokens Top cs)
      else if c = 91 then map_option (Cons TLBrack) (jsonTokens Top cs)
      else if c = 93 then map_option (Cons TRBrack) (jsonTokens Top cs)
      else if c = 58 then map_option (Cons TColon) (jsonTokens Top cs)
      else if c = 44 then map_option (Cons TComma) (jsonTokens Top cs)
      else if c = 34 then jsonTokens (InString []) cs
      else if c = 45 \<or> isDigit c then
        (case numberValue (c # takeWhile isNumberChar cs) of
           None \<Rightarrow> None
         | Some v \<Rightarrow> map_option (Cons (TNumber v)) (jsonTokens Top (dropWhile isNumberChar cs)))
      else if c = 116 \<and> take 3 cs = js ''rue'' then
        map_option (Cons TTrue) (jsonTokens Top (drop 3 cs))
      else if c = 102 \<and> take 4 cs = js ''alse'' then
        map_option (Cons TFalse) (jsonTokens Top (drop 4 cs))
      else if c = 110 \<and> take 3 cs = js ''ull'' then
        map_option (Cons TNull) (jsonTokens Top (drop 3 cs))
      else None)"
  by pat_completeness auto
termination
  by (relation "measure (\<lambda>(m, cs). length cs)")
     (auto simp: le_imp_less_Suc length_dropWhile_le)

text \<open>
  An open array with its elements so far (in reverse), or an open object with its members
  so far and the name whose value is being read. A member given twice keeps its place
  and takes the later value.
\<close>

datatype frame = InArray "json list" | InObject "(jsstring \<times> json) list" jsstring

definition setMember :: "jsstring \<Rightarrow> json \<Rightarrow> (jsstring \<times> json) list \<Rightarrow> (jsstring \<times> json) list" where
  "setMember k v ms = (if k \<in> fst ` set ms then map (\<lambda>(k', v'). if k' = k then (k', v) else (k', v')) ms else ms @ [(k, v)])"

fun parseValue :: "frame list \<Rightarrow> token list \<Rightarrow> json option"
  and parseAfter :: "json \<Rightarrow> frame list \<Rightarrow> token list \<Rightarrow> json option" where
  "parseValue st [] = None"
| "parseValue st (t # ts) =
     (case t of
        TNull \<Rightarrow> parseAfter JNull st ts
      | TTrue \<Rightarrow> parseAfter (JBool True) st ts
      | TFalse \<Rightarrow> parseAfter (JBool False) st ts
      | TNumber v \<Rightarrow> parseAfter v st ts
      | TString s \<Rightarrow> parseAfter (JStr s) st ts
      | TLBrack \<Rightarrow>
          (case ts of
             TRBrack # ts1 \<Rightarrow> parseAfter (JArr []) st ts1
           | _ \<Rightarrow> parseValue (InArray [] # st) ts)
      | TLBrace \<Rightarrow>
          (case ts of
             TRBrace # ts1 \<Rightarrow> parseAfter (JObj []) st ts1
           | TString k # TColon # ts1 \<Rightarrow> parseValue (InObject [] k # st) ts1
           | _ \<Rightarrow> None)
      | _ \<Rightarrow> None)"
| "parseAfter v [] ts = (if ts = [] then Some v else None)"
| "parseAfter v (f # st) [] = None"
| "parseAfter v (f # st) (t # ts) =
     (case f of
        InArray es \<Rightarrow>
          (case t of
             TComma \<Rightarrow> parseValue (InArray (v # es) # st) ts
           | TRBrack \<Rightarrow> parseAfter (JArr (rev (v # es))) st ts
           | _ \<Rightarrow> None)
      | InObject ms k \<Rightarrow>
          (case t of
             TComma \<Rightarrow>
               (case ts of
                  TString k' # TColon # ts1 \<Rightarrow> parseValue (InObject (setMember k v ms) k' # st) ts1
                | _ \<Rightarrow> None)
           | TRBrace \<Rightarrow> parseAfter (JObj (setMember k v ms)) st ts
           | _ \<Rightarrow> None))"

definition JSON_parse :: "jsstring \<Rightarrow> json option" where
  "JSON_parse str = (case jsonTokens Top str of None \<Rightarrow> None | Some ts \<Rightarrow> parseValue [] ts)"

section \<open>generateReport\<close>

text \<open>The template literal of lines 151 to 171, line by line.\<close>

definition reportPrompt :: jsstring where
  "reportPrompt =
     join [10]
       [js ''Based on the conversation history, generate a comprehensive mental health assessment report. Include:'',
        [],
        js ''1. Observed behavioral patterns (list 3-5 key observations)'',
        js ''2. Potential mental health conditions that may be present (if any)'',
        js ''3. A mood score from 1-10 (10 being excellent mental health)'',
        js ''4. A sentiment score from 1-10 (10 being very positive)'',
        js ''5. 2-3 key quotes from the user that were significant'',
        js ''6. 1-2 recommended therapy modules or approaches that might be beneficial'',
        [],
        js ''Format your response as a valid JSON object with the following structure:'',
        js ''{'',
        js ''  \"observedPatterns\": [\"pattern1\", \"pattern2\", ...],'',
        js ''  \"tentativeConditions\": [\"condition1\", \"condition2\", ...],'',
        js ''  \"moodScore\": number,'',
        js ''  \"sentimentScore\": number,'',
        js ''  \"keyQuotes\": [\"quote1\", \"quote2\", ...],'',
        js ''  \"recommendations\": [\"recommendation1\", \"recommendation2\"],'',
        js ''  \"analysisDate\": \"current date in ISO format\"'',
        js ''}'',
        [],
        js ''IMPORTANT: Be compassionate but honest in your assessment. If there are no signs of mental health conditions, state that the user appears to be in good mental health. Don't invent issues that aren't supported by the conversation.'']"

text \<open>
  \<open>generateReport\<close> up to its \<open>await\<close>: the new state and the arguments of the call to
  \<open>generateContentFromHF\<close>.
\<close>

definition generateReport_begin ::
  "'a ConversationState_scheme
     \<Rightarrow> 'a ConversationState_scheme \<times> (MessageInput list \<times> jsstring)" where
  "generateReport_begin s =
     (let s1 = s\<lparr>isReportGenerating := True, error := None\<rparr>;
          conversationHistory = map toTurn (messagesRef s)
      in (s1, (conversationHistory, reportPrompt)))"

text \<open>The object of lines 187 to 195, set when the text does not parse.\<close>

definition parseFailureReport :: "jsstring \<Rightarrow> json" where
  "parseFailureReport now =
     JObj [(js ''observedPatterns'', JArr [JStr (js ''Error generating comprehensive report'')]),
           (js ''tentativeConditions'', JArr []),
           (js ''moodScore'', JNum 5),
           (js ''sentimentScore'', JNum 5),
           (js ''keyQuotes'', JArr []),
           (js ''recommendations'', JArr [JStr (js ''Consider a general wellness check-in'')]),
           (js ''analysisDate'', JStr now)]"

text \<open>The object of lines 201 to 209, set when the call throws.\<close>

definition thrownErrorReport :: "jsstring \<Rightarrow> json" where
  "thrownErrorReport now =
     JObj [(js ''observedPatterns'', JArr [JStr (js ''Error generating comprehensive report'')]),
           (js ''tentativeConditions'', JArr []),
           (js ''moodScore'', JNum 5),
           (js ''sentimentScore'', JNum 5),
           (js ''keyQuotes'', JArr []),
           (js ''recommendations'', JArr [JStr (js ''Consider a general wellness check-in'')]),
           (js ''analysisDate'', JStr now)]"

text \<open>
  \<open>generateReport\<close> after its \<open>await\<close>, on the state of that moment; \<open>now\<close> is what
  \<open>new Date().toISOString()\<close> returns in the two error branches.
\<close>

definition generateReport_resume ::
  "js_error + jsstring \<Rightarrow> jsstring \<Rightarrow> 'a ConversationState_scheme
     \<Rightarrow> 'a ConversationState_scheme" where
  "generateReport_resume result now s =
     (let s1 =
        (case result of
           Inr reportJson \<Rightarrow>
             if reportJson \<noteq> [] then
               (case JSON_parse reportJson of
                  Some reportData \<Rightarrow> s\<lparr>report := reportData\<rparr>
                | None \<Rightarrow>
                    s\<lparr>error := Some (js ''Failed to generate a valid report. Please try again.''),
                      report := parseFailureReport now\<rparr>)
             else s
         | Inl e \<Rightarrow>
             s\<lparr>error := Some (js ''Failed to generate report. Please try again.''),
               report := thrownErrorReport now\<rparr>)
      in s1\<lparr>isReportGenerating := False\<rparr>)"

text \<open>A whole call of \<open>generateReport\<close> with nothing else happening in between.\<close>

definition generateReport ::
  "fetch_outcome \<Rightarrow> jsstring \<Rightarrow> 'a ConversationState_scheme \<Rightarrow> 'a ConversationState_scheme" where
  "generateReport outcome now s =
     (case generateReport_begin s of
        (s1, (history, systemPrompt)) \<Rightarrow>
          generateReport_resume
            (generateContentFromHF_resume (buildPrompt history systemPrompt) outcome) now s1)"

definition clearError :: "'a ConversationState_scheme \<Rightarrow> 'a ConversationState_scheme" where
  "clearError s = s\<lparr>error := None\<rparr>"

section \<open>The text of the exported report\<close>

text \<open>
  Modelled from the spec: the declaration of \<open>Report\<close> in \<open>src/types\<close> is not part of
  the sources; the fields are those \<open>downloadReport\<close> reads and those of the report
  schema in section 6 of the specification.
\<close>

record Report =
  observedPatterns :: "jsstring list"
  tentativeConditions :: "jsstring list"
  moodScore :: rat
  sentimentScore :: rat
  keyQuotes :: "jsstring list"
  recommendations :: "jsstring list"
  analysisDate :: jsstring

text \<open>
  The interpolation of lines 229 to 235: the section of the tentative conditions, or the
  empty string.
\<close>

definition conditionsSection :: "Report \<Rightarrow> jsstring" where
  "conditionsSection r =
     (if length (tentativeConditions r) > 0 then
        [10] @ js ''Potential Conditions:'' @ [10] @
        join [10] (map (\<lambda>condition. js ''- '' @ condition) (tentativeConditions r))
      else [])"

text \<open>
  \<open>reportContent\<close> in \<open>downloadReport\<close> (lines 219 to 242) for a report of the declared
  type. \<open>numberToString\<close> is how the platform prints a number in a template literal and
  \<open>toLocaleString\<close> is \<open>new Date(d).toLocaleString()\<close>, which depends on the locale.
\<close>

definition reportContent ::
  "(rat \<Rightarrow> jsstring) \<Rightarrow> (jsstring \<Rightarrow> jsstring) \<Rightarrow> Report \<Rightarrow> jsstring" where
  "reportContent numberToString toLocaleString r =
     trim
       ([10] @ js ''Mental Health Assessment Report'' @
        [10] @ js ''Generated on: '' @ toLocaleString (analysisDate r) @
        [10] @
        [10] @ js ''Mood Score: '' @ numberToString (moodScore r) @ js ''/10'' @
        [10] @ js ''Sentiment Score: '' @ numberToString (sentimentScore r) @ js ''/10'' @
        [10] @
        [10] @ js ''Observed Patterns:'' @
        [10] @ join [10] (map (\<lambda>pattern. js ''- '' @ pattern) (observedPatterns r)) @
        [10] @
        [10] @ conditionsSection r @
        [10] @
        [10] @ js ''Key Quotes:'' @
        [10] @ join [10] (map (\<lambda>quote. js ''- \"'' @ quote @ js ''\"'') (keyQuotes r)) @
        [10] @
        [10] @ js ''Recommendations:'' @
        [10] @ join [10] (map (\<lambda>rec. js ''- '' @ rec) (recommendations r)) @
        [10] @ js ''    '')"

section \<open>The provider as a transition system\<close>

text \<open>
  The provider together with what the platform holds for it: whether the timer of the
  greeting effect is pending, and the arguments of the calls to \<open>generateContentFromHF\<close>
  that wait for \<open>fetch\<close>.
\<close>

record Provider = ConversationState +
  greetingTimer :: bool
  pendingChat :: "(MessageInput list \<times> jsstring) list"
  pendingReport :: "(MessageInput list \<times> jsstring) list"

definition initialProvider :: Provider where
  "initialProvider =
     \<lparr>messages = [], isLoading = False, report = JNull, isReportGenerating = False,
      conversationStarted = False, error = None, messagesRef = [],
      greetingTimer = False, pendingChat = [], pendingReport = []\<rparr>"

text \<open>
  The two effects (lines 51 to 53 and 56 to 69), run when a render is committed: the
  reference takes the message list, and the first time the greeting timer is started.
\<close>

definition runEffects :: "Provider \<Rightarrow> Provider" where
  "runEffects s =
     (let s1 = s\<lparr>messagesRef := messages s\<rparr>
      in if \<not> conversationStarted s1
         then s1\<lparr>conversationStarted := True, greetingTimer := True\<rparr>
         else s1)"

text \<open>The callback of \<open>setTimeout\<close> (lines 60 to 66).\<close>

definition greetingCallback :: "jsstring \<Rightarrow> jsstring \<Rightarrow> 'a ConversationState_scheme
    \<Rightarrow> 'a ConversationState_scheme" where
  "greetingCallback uid now s =
     (let initialMessage =
            \<lparr>id_msg = uid, content = js ''Hi there! How are you feeling today?'',
             sender = Bot, timestamp = now\<rparr>
      in s\<lparr>messages := [initialMessage]\<rparr>)"

text \<open>
  What can happen to the provider: a render is committed, the greeting timer fires, an
  operation is called, or the \<open>fetch\<close> of the pending call number \<open>i\<close> comes back.
\<close>

datatype event =
    Commit
  | GreetingTimeout jsstring jsstring
  | SendMessage jsstring jsstring jsstring
  | ChatSettles nat fetch_outcome jsstring jsstring
  | GenerateReport
  | ReportSettles nat fetch_outcome jsstring
  | ClearError

definition removeAt :: "nat \<Rightarrow> 'a list \<Rightarrow> 'a list" where
  "removeAt i xs = take i xs @ drop (Suc i) xs"

fun step :: "Provider \<Rightarrow> event \<Rightarrow> Provider" where
  "step s Commit = runEffects s"
| "step s (GreetingTimeout uid now) =
     (if greetingTimer s then greetingCallback uid now (s\<lparr>greetingTimer := False\<rparr>) else s)"
| "step s (SendMessage str uid now) =
     (case sendMessage_begin str uid now s of
        (s1, None) \<Rightarrow> s1
      | (s1, Some call) \<Rightarrow> s1\<lparr>pendingChat := pendingChat s1 @ [call]\<rparr>)"
| "step s (ChatSettles i outcome uid now) =
     (if i < length (pendingChat s) then
        (case pendingChat s ! i of
           (history, systemPrompt) \<Rightarrow>
             sendMessage_resume
               (generateContentFromHF_resume (buildPrompt history systemPrompt) outcome)
               uid now (s\<lparr>pendingChat := removeAt i (pendingChat s)\<rparr>))
      else s)"
| "step s GenerateReport =
     (case generateReport_begin s of
        (s1, call) \<Rightarrow> s1\<lparr>pendingReport := pendingReport s1 @ [call]\<rparr>)"
| "step s (ReportSettles i outcome now) =
     (if i < length (pendingReport s) then
        (case pendingReport s ! i of
           (history, systemPrompt) \<Rightarrow>
             generateReport_resume
               (generateContentFromHF_resume (buildPrompt history systemPrompt) outcome)
               now (s\<lparr>pendingReport := removeAt i (pendingReport s)\<rparr>))
      else s)"
| "step s ClearError = clearError s"

definition run :: "event list \<Rightarrow> Provider" where
  "run evs = foldl step initialProvider evs"

section \<open>Notions of the specification and sample inputs\<close>

text \<open>
  The content of the last turn with the user role, as the specification speaks of it:
  the first such turn met when the list is read from its end.
\<close>

definition lastUserContent :: "MessageInput list \<Rightarrow> jsstring option" where
  "lastUserContent msgs =
     map_option MessageInput.content (find (\<lambda>msg. role msg = RoleUser) (rev msgs))"

text \<open>
  A score as section 3 of the specification wants it: a number that is an integer from
  1 to 10. \<open>scoresInRange\<close> asks it of both scores of a report value.
\<close>

definition isScore :: "json option \<Rightarrow> bool" where
  "isScore v = (case v of Some (JNum q) \<Rightarrow> q \<in> \<int> \<and> 1 \<le> q \<and> q \<le> 10 | _ \<Rightarrow> False)"

definition scoresInRange :: "json \<Rightarrow> bool" where
  "scoresInRange r \<longleftrightarrow>
     isScore (getMember r (js ''moodScore'')) \<and> isScore (getMember r (js ''sentimentScore''))"

text \<open>
  The failure paths of \<open>generateReport\<close>: the call to the backend throws, or the text it
  returns is not JSON.
\<close>

definition reportFailure :: "js_error + jsstring \<Rightarrow> bool" where
  "reportFailure result =
     (case result of Inl e \<Rightarrow> True | Inr reportJson \<Rightarrow> JSON_parse reportJson = None)"

text \<open>The degraded placeholder, by the fields the specification names.\<close>

definition isDegradedPlaceholder :: "json \<Rightarrow> bool" where
  "isDegradedPlaceholder r \<longleftrightarrow>
     getMember r (js ''moodScore'') = Some (JNum 5) \<and>
     getMember r (js ''sentimentScore'') = Some (JNum 5) \<and>
     getMember r (js ''keyQuotes'') = Some (JArr []) \<and>
     getMember r (js ''tentativeConditions'') = Some (JArr []) \<and>
     getMember r (js ''recommendations'') = Some (JArr [JStr (js ''Consider a general wellness check-in'')])"

text \<open>A provider after the greeting, with its reference up to date.\<close>

definition sampleState :: ConversationState where
  "sampleState =
     \<lparr>messages = [\<lparr>id_msg = js ''m0'', content = js ''Hi there! How are you feeling today?'',
                    sender = Bot, timestamp = js ''2024-01-01T00:00:00.500Z''\<rparr>],
      isLoading = False, report = JNull, isReportGenerating = False,
      conversationStarted = True, error = None,
      messagesRef = [\<lparr>id_msg = js ''m0'', content = js ''Hi there! How are you feeling today?'',
                       sender = Bot, timestamp = js ''2024-01-01T00:00:00.500Z''\<rparr>]\<rparr>"

text \<open>
  Replies of the backend, in the shape the hosted model answers in: a chat reply, the
  JSON text \<open>null\<close>, a report whose mood score is 42, prose that is not JSON, and a
  report whose mood score is written with more digits than a double holds.
\<close>

definition thatSoundsHard :: fetch_outcome where
  "thatSoundsHard = FetchResponse 200 (Some (JArr [JObj [(js ''generated_text'', JStr (js '' That sounds hard.''))]]))"

definition nullText :: jsstring where
  "nullText = js ''null''"

definition nullReply :: fetch_outcome where
  "nullReply = FetchResponse 200 (Some (JArr [JObj [(js ''generated_text'', JStr nullText)]]))"

definition outOfRangeText :: jsstring where
  "outOfRangeText = js ''{\"observedPatterns\":[],\"tentativeConditions\":[],\"moodScore\":42,\"sentimentScore\":5,\"keyQuotes\":[],\"recommendations\":[],\"analysisDate\":\"2024-01-01T00:00:00.000Z\"}''"

definition outOfRangeReply :: fetch_outcome where
  "outOfRangeReply = FetchResponse 200 (Some (JArr [JObj [(js ''generated_text'', JStr outOfRangeText)]]))"

definition proseText :: jsstring where
  "proseText = js ''Here is the report.''"

definition proseReply :: fetch_outcome where
  "proseReply = FetchResponse 200 (Some (JArr [JObj [(js ''generated_text'', JStr proseText)]]))"

definition roundedScoreText :: jsstring where
  "roundedScoreText = js ''{\"moodScore\":10.000000000000000001,\"sentimentScore\":5}''"

definition roundedScoreReply :: fetch_outcome where
  "roundedScoreReply = FetchResponse 200 (Some (JArr [JObj [(js ''generated_text'', JStr roundedScoreText)]]))"

text \<open>
  A report and the two printing functions of the platform contribute no occurrence of the
  text \<open>h\<close> to the exported document: neither the printed date, nor a printed score, nor
  a pattern, quote or recommendation contains it.
\<close>

definition contentAvoids ::
  "jsstring \<Rightarrow> (rat \<Rightarrow> jsstring) \<Rightarrow> (jsstring \<Rightarrow> jsstring) \<Rightarrow> Report \<Rightarrow> bool" where
  "contentAvoids h numberToString toLocaleString r \<longleftrightarrow>
     \<not> sublist h (toLocaleString (analysisDate r)) \<and>
     \<not> sublist h (numberToString (moodScore r)) \<and>
     \<not> sublist h (numberToString (sentimentScore r)) \<and>
     list_all (\<lambda>x. \<not> sublist h x) (observedPatterns r @ keyQuotes r @ recommendations r)"

text \<open>
  Two reports of the declared type, one without and one with tentative conditions, and
  printing functions that give what the platform prints for them in an English locale.
\<close>

definition calmReport :: Report where
  "calmReport =
     \<lparr>observedPatterns = [js ''Sleeps well'', js ''Talks about work''],
      tentativeConditions = [],
      moodScore = 7, sentimentScore = 6,
      keyQuotes = [js ''I feel fine''],
      recommendations = [js ''Keep a journal''],
      analysisDate = js ''2024-01-01T00:00:05.000Z''\<rparr>"

definition anxiousReport :: Report where
  "anxiousReport = calmReport\<lparr>tentativeConditions := [js ''Mild anxiety'', js ''Insomnia'']\<rparr>"

definition sampleNumberToString :: "rat \<Rightarrow> jsstring" where
  "sampleNumberToString q = (if q = 7 then js ''7'' else js ''6'')"

definition sampleToLocaleString :: "jsstring \<Rightarrow> jsstring" where
  "sampleToLocaleString d = js ''1/1/2024, 12:00:05 AM''"

text \<open>
  Two histories of the provider. In the first, after the greeting has been shown,
  \<open>sendMessage\<close> is called twice before a render is committed in between. In the second,
  \<open>sendMessage\<close> is called during the half second before the greeting timer fires.
\<close>

definition staleRefTrace :: "event list" where
  "staleRefTrace =
     [Commit,
      GreetingTimeout (js ''m0'') (js ''2024-01-01T00:00:00.500Z''),
      Commit,
      SendMessage (js ''I feel anxious'') (js ''m1'') (js ''2024-01-01T00:00:09.000Z''),
      SendMessage (js ''I cannot sleep'') (js ''m2'') (js ''2024-01-01T00:00:09.000Z'')]"

definition earlySendTrace :: "event list" where
  "earlySendTrace =
     [Commit,
      SendMessage (js ''I feel anxious'') (js ''m1'') (js ''2024-01-01T00:00:00.200Z'')]"

section \<open>Evaluation and auxiliary facts\<close>

lemmas string_eval = js_def trim_def isWhiteSpace_def stripArtifact_def matchesIgnoreCase_def toUpperAscii_def
lemmas hf_eval = generateContentFromHF_resume_def response_ok_def cleanGenerated_def buildPrompt_def pop_def
lemmas json_eval = JSON_parse_def isJsonWhiteSpace_def isDigit_def isNumberChar_def numberValue_def fractionValue_def exponentValue_def digitsValue_def setMember_def escapeValue_def hexValue_def
  roundToDouble_def binaryExponent_def atLeastPowerOfTwo_def roundHalfEven_def timesPowerOfTwo_def bitLength.simps Let_def

lemma fallback_texts_nonempty:
  "js ''I'm glad to hear from you! How can I help you today?'' \<noteq> []"
  "js ''Sorry, I couldn't generate a response.'' \<noteq> []"
  by (simp_all add: js_def)

lemma cleanGenerated_nonempty: "cleanGenerated prompt g = Inr t \<Longrightarrow> t \<noteq> []"
  by (cases g) (auto simp: cleanGenerated_def Let_def fallback_texts_nonempty split: if_splits)

text \<open>What \<open>generateContentFromHF\<close> returns is never the empty string.\<close>

lemma generateContentFromHF_resume_nonempty:
  "generateContentFromHF_resume prompt outcome = Inr t \<Longrightarrow> t \<noteq> []"
  by (auto simp: generateContentFromHF_resume_def fallback_texts_nonempty
      split: fetch_outcome.splits option.splits if_splits dest: cleanGenerated_nonempty)

lemma hf_rejects: "generateContentFromHF_resume prompt FetchRejects = Inl NetworkError"
  by (simp add: generateContentFromHF_resume_def)

lemma hf_prose: "generateContentFromHF_resume (buildPrompt msgs sp) proseReply = Inr proseText"
  by (simp add: proseReply_def proseText_def hf_eval string_eval)

lemma parse_prose: "JSON_parse proseText = None"
  by (simp add: proseText_def json_eval js_def)

lemma hf_null: "generateContentFromHF_resume (buildPrompt msgs sp) nullReply = Inr nullText"
  by (simp add: nullReply_def nullText_def hf_eval string_eval)

lemma parse_null: "JSON_parse nullText = Some JNull"
  by (simp add: nullText_def json_eval js_def)

lemma hf_oor: "generateContentFromHF_resume (buildPrompt msgs sp) outOfRangeReply = Inr outOfRangeText"
  by (simp add: outOfRangeReply_def outOfRangeText_def hf_eval string_eval)

lemma parse_oor:
  "JSON_parse outOfRangeText =
     Some (JObj [(js ''observedPatterns'', JArr []), (js ''tentativeConditions'', JArr []),
                 (js ''moodScore'', JNum 42), (js ''sentimentScore'', JNum 5),
                 (js ''keyQuotes'', JArr []), (js ''recommendations'', JArr []),
                 (js ''analysisDate'', JStr (js ''2024-01-01T00:00:00.000Z''))])"
  by (simp add: outOfRangeText_def json_eval js_def)

text \<open>
  Number literals are rounded to doubles, as \<open>JSON.parse\<close> rounds them: to the nearest
  one, and to the even significand on a tie. So \<open>0.1\<close> is not the tenth, and
  \<open>1e23\<close> and \<open>9007199254740993\<close> are not the integers written.
\<close>

lemma parse_rounds_to_double:
  "JSON_parse (js ''10.000000000000000001'') = Some (JNum 10)"
  "JSON_parse (js ''0.99999999999999999'') = Some (JNum 1)"
  "JSON_parse (js ''9007199254740993'') = Some (JNum 9007199254740992)"
  "JSON_parse (js ''-2.5'') = Some (JNum (- 5 / 2))"
  "JSON_parse (js ''0.5e1'') = Some (JNum 5)"
  "JSON_parse (js ''-0'') = Some (JNum 0)"
  "JSON_parse (js ''0.1'') = Some (JNum (3602879701896397 / 36028797018963968))"
  "JSON_parse (js ''1e23'') = Some (JNum 99999999999999991611392)"
  by (simp_all add: json_eval js_def)

lemma hf_rounded: "generateContentFromHF_resume (buildPrompt msgs sp) roundedScoreReply = Inr roundedScoreText"
  by (simp add: roundedScoreReply_def roundedScoreText_def hf_eval string_eval)

lemma parse_rounded:
  "JSON_parse roundedScoreText = Some (JObj [(js ''moodScore'', JNum 10), (js ''sentimentScore'', JNum 5)])"
  by (simp add: roundedScoreText_def json_eval js_def)

lemma rounded_in_range:
  "scoresInRange (JObj [(js ''moodScore'', JNum 10), (js ''sentimentScore'', JNum 5)])"
  by (simp add: scoresInRange_def isScore_def js_def)

lemma sample_texts_nonempty: "nullText \<noteq> []" "outOfRangeText \<noteq> []" "proseText \<noteq> []"
  by (simp_all add: nullText_def outOfRangeText_def proseText_def js_def)

lemma nonblank_samples:
  "trim (js ''I feel anxious'') \<noteq> []" "trim (js ''I cannot sleep'') \<noteq> []"
  by (simp_all add: string_eval)

text \<open>The last element of the filtered list is the first match from the end.\<close>

lemma pop_filter_find: "pop (filter P xs) = find P (rev xs)"
  by (induction xs rule: rev_induct) (auto simp: pop_def)

subsection \<open>sendMessage\<close>

lemma sendMessage_begin_nonblank:
  "trim str \<noteq> [] \<Longrightarrow>
   sendMessage_begin str uid now s =
     (s\<lparr>messages := messages s @ [\<lparr>id_msg = uid, content = str, sender = User, timestamp = now\<rparr>],
        isLoading := True, error := None\<rparr>,
      Some (map toTurn (messagesRef s @ [\<lparr>id_msg = uid, content = str, sender = User, timestamp = now\<rparr>]),
            chatSystemPrompt))"
  by (simp add: sendMessage_begin_def Let_def)

lemma sendMessage_unfold:
  "trim str \<noteq> [] \<Longrightarrow>
   sendMessage str uid now outcome uid' now' s =
     sendMessage_resume
       (generateContentFromHF_resume
          (buildPrompt (map toTurn (messagesRef s @
             [\<lparr>id_msg = uid, content = str, sender = User, timestamp = now\<rparr>])) chatSystemPrompt) outcome)
       uid' now'
       (s\<lparr>messages := messages s @ [\<lparr>id_msg = uid, content = str, sender = User, timestamp = now\<rparr>],
          isLoading := True, error := None\<rparr>)"
  by (simp add: sendMessage_def sendMessage_begin_nonblank)

lemma sendMessage_resume_messages:
  "messages (sendMessage_resume result uid now s) =
     (case result of
        Inl e \<Rightarrow> messages s @ [apologyMessage uid now]
      | Inr response \<Rightarrow>
          if response = [] then messages s
          else messages s @ [\<lparr>id_msg = uid, content = response, sender = Bot, timestamp = now\<rparr>])"
  by (simp add: sendMessage_resume_def Let_def split: sum.splits)

lemma sendMessage_resume_isLoading: "isLoading (sendMessage_resume result uid now s) = False"
  by (simp add: sendMessage_resume_def Let_def)

lemma sendMessage_resume_thrown:
  "sendMessage_resume (Inl e) uid now s =
     s\<lparr>error := Some (js ''Failed to get response. Please try again.''),
       messages := messages s @ [apologyMessage uid now], isLoading := False\<rparr>"
  by (simp add: sendMessage_resume_def Let_def)

lemma sendMessage_resume_appends_bot:
  "\<exists>botMessage. sender botMessage = Bot \<and>
     messages (sendMessage_resume (generateContentFromHF_resume prompt outcome) uid now s)
       = messages s @ [botMessage]"
proof (cases "generateContentFromHF_resume prompt outcome")
  case (Inl e)
  then show ?thesis
    by (simp add: sendMessage_resume_messages apologyMessage_def)
next
  case (Inr response)
  then have "response \<noteq> []"
    by (rule generateContentFromHF_resume_nonempty)
  with Inr show ?thesis
    by (simp add: sendMessage_resume_messages)
qed

text \<open>
  When the reference is up to date, the turn list of a call is the whole transcript,
  the new user message included, turn by turn and in order.
\<close>

lemma sendMessage_history_in_sync:
  assumes "messagesRef s = messages s"
    and "sendMessage_begin str uid now s = (s', Some (history, systemPrompt))"
  shows "history = map toTurn (messages s')"
    and "messages s' = messages s @ [\<lparr>id_msg = uid, content = str, sender = User, timestamp = now\<rparr>]"
  using assms by (auto simp: sendMessage_begin_def Let_def split: if_splits)

subsection \<open>generateReport\<close>

lemma generateReport_resume_report:
  "report (generateReport_resume result now s) =
     (case result of
        Inl e \<Rightarrow> thrownErrorReport now
      | Inr reportJson \<Rightarrow>
          if reportJson = [] then report s
          else (case JSON_parse reportJson of
                  Some reportData \<Rightarrow> reportData
                | None \<Rightarrow> parseFailureReport now))"
  by (simp add: generateReport_resume_def Let_def split: sum.splits option.splits)

lemma generateReport_unfold:
  "generateReport outcome now s =
     generateReport_resume
       (generateContentFromHF_resume (buildPrompt (map toTurn (messagesRef s)) reportPrompt) outcome)
       now (s\<lparr>isReportGenerating := True, error := None\<rparr>)"
  by (simp add: generateReport_def generateReport_begin_def Let_def)

text \<open>
  The \<open>if (reportJson)\<close> of line 179 never fails on what the adapter returns, so every
  settled call sets the report.
\<close>

lemma generateReport_resume_HF_report:
  "report (generateReport_resume (generateContentFromHF_resume prompt outcome) now s) =
     (case generateContentFromHF_resume prompt outcome of
        Inl e \<Rightarrow> thrownErrorReport now
      | Inr reportJson \<Rightarrow>
          (case JSON_parse reportJson of
             Some reportData \<Rightarrow> reportData
           | None \<Rightarrow> parseFailureReport now))"
  by (auto simp: generateReport_resume_report split: sum.splits
      dest: generateContentFromHF_resume_nonempty)

lemma parseFailureReport_placeholder: "isDegradedPlaceholder (parseFailureReport now)"
  by (simp add: isDegradedPlaceholder_def parseFailureReport_def js_def)

lemma thrownErrorReport_placeholder: "isDegradedPlaceholder (thrownErrorReport now)"
  by (simp add: isDegradedPlaceholder_def thrownErrorReport_def js_def)

lemma placeholder_scores: "isDegradedPlaceholder r \<Longrightarrow> scoresInRange r"
  by (simp add: isDegradedPlaceholder_def scoresInRange_def isScore_def)

lemma error_reports_equal: "parseFailureReport now = thrownErrorReport now"
  by (simp add: parseFailureReport_def thrownErrorReport_def)

lemma generateReport_resume_failure:
  assumes "reportFailure (generateContentFromHF_resume prompt outcome)"
  shows "report (generateReport_resume (generateContentFromHF_resume prompt outcome) now s)
           = thrownErrorReport now"
  using assms unfolding generateReport_resume_HF_report
  by (simp add: reportFailure_def error_reports_equal split: sum.splits)

subsection \<open>The exported text\<close>

lemma dropWhile_stop: "\<not> P b \<Longrightarrow> dropWhile P (xs @ b # ys) = dropWhile P xs @ b # ys"
  by (induction xs) auto

text \<open>
  Trimming a text that starts with a line feed and then a visible code unit, and that has
  a visible code unit later on, keeps everything between the two.
\<close>

lemma trim_layout:
  assumes "\<not> isWhiteSpace a" and "\<not> isWhiteSpace b"
  shows "trim (10 # a # mid @ b # rest) = a # mid @ b # rev (dropWhile isWhiteSpace (rev rest))"
proof -
  have "isWhiteSpace 10"
    by (simp add: isWhiteSpace_def)
  then have "dropWhile isWhiteSpace (10 # a # mid @ b # rest) = a # mid @ b # rest"
    using assms(1) by simp
  moreover have "dropWhile isWhiteSpace (rev (a # mid @ b # rest))
      = dropWhile isWhiteSpace (rev rest) @ b # rev mid @ [a]"
    using dropWhile_stop [of isWhiteSpace b "rev rest" "rev mid @ [a]"] assms(2) by simp
  ultimately show ?thesis
    by (simp add: trim_def)
qed

lemma trim_sublist: "sublist (trim s) s"
proof -
  have "sublist (dropWhile isWhiteSpace (rev (dropWhile isWhiteSpace s))) (rev (dropWhile isWhiteSpace s))"
    by simp
  then have "sublist (trim s) (dropWhile isWhiteSpace s)"
    unfolding trim_def by (simp add: sublist_rev_left)
  moreover have "sublist (dropWhile isWhiteSpace s) s"
    by simp
  ultimately show ?thesis
    by (rule sublist_order.order_trans)
qed


lemma prefix_without_head:
  assumes "c \<notin> set h" and "prefix h (c # b)"
  shows "h = []"
  using assms by (cases h) auto

text \<open>
  A text without the code unit \<open>c\<close> that occurs in \<open>a @ c # b\<close> occurs in \<open>a\<close> or in
  \<open>b\<close>; so it occurs in one of the lines that \<open>join [c]\<close> puts together.
\<close>

lemma sublist_at_newline:
  assumes "c \<notin> set h"
  shows "sublist h (a @ c # b) \<longleftrightarrow> sublist h a \<or> sublist h b"
proof
  assume "sublist h (a @ c # b)"
  then have "sublist h a \<or> sublist h (c # b)
      \<or> (\<exists>h1 h2. h = h1 @ h2 \<and> suffix h1 a \<and> prefix h2 (c # b))"
    by (simp only: sublist_append)
  then consider "sublist h a" | "sublist h (c # b)"
    | h1 h2 where "h = h1 @ h2" "suffix h1 a" "prefix h2 (c # b)"
    by blast
  then show "sublist h a \<or> sublist h b"
  proof cases
    case 1
    then show ?thesis by simp
  next
    case 2
    then have "prefix h (c # b) \<or> sublist h b"
      by (simp only: sublist_Cons_right)
    moreover have "h = []" if "prefix h (c # b)"
      using assms that by (rule prefix_without_head)
    ultimately show ?thesis by auto
  next
    case 3
    from assms 3(1) have "c \<notin> set h2"
      by simp
    then have "h2 = []"
      using 3(3) by (rule prefix_without_head)
    with 3(1,2) show ?thesis by auto
  qed
next
  assume "sublist h a \<or> sublist h b"
  then show "sublist h (a @ c # b)"
  proof
    assume "sublist h a"
    then show ?thesis by (simp add: sublist_append)
  next
    assume "sublist h b"
    then have "sublist h (c # b)" by (simp add: sublist_Cons_right)
    then show ?thesis by (simp only: sublist_append) simp
  qed
qed

lemma sublist_skip_left:
  assumes "x \<notin> set l" and "sublist (x # xs) (l @ v)"
  shows "sublist (x # xs) v"
  using assms
proof (induction l)
  case Nil
  then show ?case by simp
next
  case (Cons y l)
  from Cons.prems(2) have "prefix (x # xs) (y # l @ v) \<or> sublist (x # xs) (l @ v)"
    by (simp add: sublist_Cons_right)
  moreover from Cons.prems(1) have "\<not> prefix (x # xs) (y # l @ v)"
    by simp
  ultimately show ?case
    using Cons.IH Cons.prems(1) by simp
qed

lemma sublist_skip_right:
  assumes "x \<notin> set l" and "sublist (xs @ [x]) (v @ l)"
  shows "sublist (xs @ [x]) v"
proof -
  from assms(2) have "sublist (rev (xs @ [x])) (rev (v @ l))"
    by (simp only: sublist_rev)
  then have "sublist (x # rev xs) (rev l @ rev v)"
    by simp
  moreover from assms(1) have "x \<notin> set (rev l)"
    by simp
  ultimately have "sublist (x # rev xs) (rev v)"
    by (rule sublist_skip_left [rotated])
  then have "sublist (rev (xs @ [x])) (rev v)"
    by simp
  then show ?thesis
    by (simp only: sublist_rev)
qed

lemma sublist_join:
  assumes "c \<notin> set h" and "h \<noteq> []"
  shows "sublist h (join [c] xs) \<Longrightarrow> \<exists>x \<in> set xs. sublist h x"
proof (induction xs rule: induct_list012)
  case 1
  with assms(2) show ?case by simp
next
  case (2 x)
  then show ?case by simp
next
  case (3 x y ys)
  from 3(3) have "sublist h (x @ c # join [c] (y # ys))"
    by simp
  then have "sublist h x \<or> sublist h (join [c] (y # ys))"
    by (simp only: sublist_at_newline [OF assms(1)])
  with 3(2) show ?case by auto
qed


lemma sublist_trans: "sublist a b \<Longrightarrow> sublist b c \<Longrightarrow> sublist a c"
  by (rule sublist_order.order_trans)

lemma header_shape:
  "js ''Potential Conditions:'' = 80 # js ''otential Conditions:''"
  "js ''Potential Conditions:'' = js ''Potential Conditions'' @ [58]"
  "10 \<notin> set (js ''Potential Conditions:'')"
  by (simp_all add: js_def)

lemma literal_without_header:
  "\<not> sublist (js ''Potential Conditions:'') (js ''Mental Health Assessment Report'')"
  "\<not> sublist (js ''Potential Conditions:'') (js ''Observed Patterns:'')"
  "\<not> sublist (js ''Potential Conditions:'') (js ''Key Quotes:'')"
  "\<not> sublist (js ''Potential Conditions:'') (js ''Recommendations:'')"
  "\<not> sublist (js ''Potential Conditions:'') (js ''    '')"
  "\<not> sublist (js ''Potential Conditions:'') []"
  by (simp_all add: js_def sublist_code)

lemma literal_without_P:
  "80 \<notin> set (js ''Generated on: '')" "80 \<notin> set (js ''Mood Score: '')"
  "80 \<notin> set (js ''Sentiment Score: '')" "80 \<notin> set (js ''- '')" "80 \<notin> set (js ''- \"'')"
  by (simp_all add: js_def)

lemma literal_without_colon:
  "58 \<notin> set (js ''/10'')" "58 \<notin> set (js ''\"'')"
  by (simp_all add: js_def)

lemma header_in_prefixed:
  assumes "80 \<notin> set l" and "sublist (js ''Potential Conditions:'') (l @ v)"
  shows "sublist (js ''Potential Conditions:'') v"
  using assms unfolding header_shape(1) by (rule sublist_skip_left)

lemma header_in_suffixed:
  assumes "58 \<notin> set l" and "sublist (js ''Potential Conditions:'') (v @ l)"
  shows "sublist (js ''Potential Conditions:'') v"
  using assms unfolding header_shape(2) by (rule sublist_skip_right)

lemma header_in_bullets:
  assumes "sublist (js ''Potential Conditions:'') (join [10] (map (\<lambda>x. js ''- '' @ x) xs))"
  shows "\<exists>x \<in> set xs. sublist (js ''Potential Conditions:'') x"
proof -
  have "js ''Potential Conditions:'' \<noteq> []"
    by (simp add: header_shape(1))
  with header_shape(3) assms
  obtain y where "y \<in> set (map (\<lambda>x. js ''- '' @ x) xs)" "sublist (js ''Potential Conditions:'') y"
    using sublist_join by blast
  then obtain x where "x \<in> set xs" "sublist (js ''Potential Conditions:'') (js ''- '' @ x)"
    by auto
  then show ?thesis
    using header_in_prefixed [OF literal_without_P(4)] by blast
qed

lemma header_in_quotes:
  assumes "sublist (js ''Potential Conditions:'') (join [10] (map (\<lambda>x. js ''- \"'' @ x @ js ''\"'') xs))"
  shows "\<exists>x \<in> set xs. sublist (js ''Potential Conditions:'') x"
proof -
  have "js ''Potential Conditions:'' \<noteq> []"
    by (simp add: header_shape(1))
  with header_shape(3) assms
  obtain y where "y \<in> set (map (\<lambda>x. js ''- \"'' @ x @ js ''\"'') xs)" "sublist (js ''Potential Conditions:'') y"
    using sublist_join by blast
  then obtain x where x: "x \<in> set xs" "sublist (js ''Potential Conditions:'') (js ''- \"'' @ x @ js ''\"'')"
    by auto
  from x(2) have "sublist (js ''Potential Conditions:'') (x @ js ''\"'')"
    by (rule header_in_prefixed [OF literal_without_P(5)])
  then have "sublist (js ''Potential Conditions:'') x"
    by (rule header_in_suffixed [OF literal_without_colon(2)])
  with x(1) show ?thesis by blast
qed

text \<open>The document after trimming, piece by piece.\<close>

lemma reportContent_layout:
  "reportContent numberToString toLocaleString r =
     js ''Mental Health Assessment Report'' @
     [10] @ js ''Generated on: '' @ toLocaleString (analysisDate r) @
     [10, 10] @ js ''Mood Score: '' @ numberToString (moodScore r) @ js ''/10'' @
     [10] @ js ''Sentiment Score: '' @ numberToString (sentimentScore r) @ js ''/10'' @
     [10, 10] @ js ''Observed Patterns:'' @
     [10] @ join [10] (map (\<lambda>pattern. js ''- '' @ pattern) (observedPatterns r)) @
     [10, 10] @ conditionsSection r @
     [10, 10] @ js ''Key Quotes:'' @
     [10] @ join [10] (map (\<lambda>quote. js ''- \"'' @ quote @ js ''\"'') (keyQuotes r)) @
     [10, 10] @ js ''Recommendations:'' @
     rev (dropWhile isWhiteSpace
            (rev ([10] @ join [10] (map (\<lambda>rec. js ''- '' @ rec) (recommendations r)))))"
proof -
  define mid where "mid =
     js ''ental Health Assessment Report'' @
     [10] @ js ''Generated on: '' @ toLocaleString (analysisDate r) @
     [10, 10] @ js ''Mood Score: '' @ numberToString (moodScore r) @ js ''/10'' @
     [10] @ js ''Sentiment Score: '' @ numberToString (sentimentScore r) @ js ''/10'' @
     [10, 10] @ js ''Observed Patterns:'' @
     [10] @ join [10] (map (\<lambda>pattern. js ''- '' @ pattern) (observedPatterns r)) @
     [10, 10] @ conditionsSection r @
     [10, 10] @ js ''Key Quotes:'' @
     [10] @ join [10] (map (\<lambda>quote. js ''- \"'' @ quote @ js ''\"'') (keyQuotes r)) @
     [10, 10] @ js ''Recommendations''"
  define recs where "recs = join [10] (map (\<lambda>rec. js ''- '' @ rec) (recommendations r))"
  have first: "js ''Mental Health Assessment Report'' = 77 # js ''ental Health Assessment Report''"
    and last: "js ''Recommendations:'' = js ''Recommendations'' @ [58]"
    and spaces: "js ''    '' = [32, 32, 32, 32]"
    by (simp_all add: js_def)
  have visible: "\<not> isWhiteSpace 77" "\<not> isWhiteSpace 58"
    by (simp_all add: isWhiteSpace_def)
  have "reportContent numberToString toLocaleString r
      = trim (10 # 77 # mid @ 58 # (10 # recs @ [10, 32, 32, 32, 32]))"
    by (simp add: reportContent_def mid_def recs_def first last spaces)
  also have "\<dots> = 77 # mid @ 58 # rev (dropWhile isWhiteSpace (rev (10 # recs @ [10, 32, 32, 32, 32])))"
    using visible by (rule trim_layout)
  also have "rev (dropWhile isWhiteSpace (rev (10 # recs @ [10, 32, 32, 32, 32])))
      = rev (dropWhile isWhiteSpace (rev (10 # recs)))"
    by (simp add: isWhiteSpace_def)
  finally show ?thesis
    by (simp add: mid_def recs_def first last)
qed


lemma reportContent_without_header:
  assumes empty: "tentativeConditions r = []"
    and avoids: "contentAvoids (js ''Potential Conditions:'') numberToString toLocaleString r"
  shows "\<not> sublist (js ''Potential Conditions:'') (reportContent numberToString toLocaleString r)"
proof
  let ?h = "js ''Potential Conditions:''"
  let ?lines =
    "[[], js ''Mental Health Assessment Report'',
      js ''Generated on: '' @ toLocaleString (analysisDate r),
      [],
      js ''Mood Score: '' @ numberToString (moodScore r) @ js ''/10'',
      js ''Sentiment Score: '' @ numberToString (sentimentScore r) @ js ''/10'',
      [],
      js ''Observed Patterns:'',
      join [10] (map (\<lambda>pattern. js ''- '' @ pattern) (observedPatterns r)),
      [], [], [],
      js ''Key Quotes:'',
      join [10] (map (\<lambda>quote. js ''- \"'' @ quote @ js ''\"'') (keyQuotes r)),
      [],
      js ''Recommendations:'',
      join [10] (map (\<lambda>rec. js ''- '' @ rec) (recommendations r)),
      js ''    '']"
  assume present: "sublist ?h (reportContent numberToString toLocaleString r)"
  have "reportContent numberToString toLocaleString r = trim (join [10] ?lines)"
    by (simp add: reportContent_def conditionsSection_def empty)
  with present have "sublist ?h (trim (join [10] ?lines))"
    by (simp only:)
  then have inside: "sublist ?h (join [10] ?lines)"
    using trim_sublist by (rule sublist_trans)
  have "?h \<noteq> []"
    by (simp add: header_shape(1))
  with header_shape(3) have "\<exists>l \<in> set ?lines. sublist ?h l"
    using inside by (rule sublist_join)
  then obtain l where l: "l \<in> set ?lines" "sublist ?h l"
    by (rule bexE)
  from avoids have date: "\<not> sublist ?h (toLocaleString (analysisDate r))"
    and mood: "\<not> sublist ?h (numberToString (moodScore r))"
    and sentiment: "\<not> sublist ?h (numberToString (sentimentScore r))"
    and strings: "\<And>x. x \<in> set (observedPatterns r) \<union> set (keyQuotes r) \<union> set (recommendations r)
                    \<Longrightarrow> \<not> sublist ?h x"
    by (auto simp: contentAvoids_def list_all_iff)
  from l(1) consider
      "l = []" | "l = js ''Mental Health Assessment Report''"
    | "l = js ''Generated on: '' @ toLocaleString (analysisDate r)"
    | "l = js ''Mood Score: '' @ numberToString (moodScore r) @ js ''/10''"
    | "l = js ''Sentiment Score: '' @ numberToString (sentimentScore r) @ js ''/10''"
    | "l = js ''Observed Patterns:''"
    | "l = join [10] (map (\<lambda>pattern. js ''- '' @ pattern) (observedPatterns r))"
    | "l = js ''Key Quotes:''"
    | "l = join [10] (map (\<lambda>quote. js ''- \"'' @ quote @ js ''\"'') (keyQuotes r))"
    | "l = js ''Recommendations:''"
    | "l = join [10] (map (\<lambda>rec. js ''- '' @ rec) (recommendations r))"
    | "l = js ''    ''"
    by auto
  then show False
  proof cases
    case 1
    from l(2) have "sublist ?h []" unfolding 1 .
    with literal_without_header(6) show False ..
  next
    case 2
    from l(2) have "sublist ?h (js ''Mental Health Assessment Report'')" unfolding 2 .
    with literal_without_header(1) show False ..
  next
    case 3
    from l(2) have "sublist ?h (js ''Generated on: '' @ toLocaleString (analysisDate r))"
      unfolding 3 .
    with literal_without_P(1) have "sublist ?h (toLocaleString (analysisDate r))"
      by (rule header_in_prefixed)
    with date show False ..
  next
    case 4
    from l(2) have "sublist ?h (js ''Mood Score: '' @ numberToString (moodScore r) @ js ''/10'')"
      unfolding 4 .
    with literal_without_P(2) have "sublist ?h (numberToString (moodScore r) @ js ''/10'')"
      by (rule header_in_prefixed)
    with literal_without_colon(1) have "sublist ?h (numberToString (moodScore r))"
      by (rule header_in_suffixed)
    with mood show False ..
  next
    case 5
    from l(2) have "sublist ?h (js ''Sentiment Score: '' @ numberToString (sentimentScore r) @ js ''/10'')"
      unfolding 5 .
    with literal_without_P(3) have "sublist ?h (numberToString (sentimentScore r) @ js ''/10'')"
      by (rule header_in_prefixed)
    with literal_without_colon(1) have "sublist ?h (numberToString (sentimentScore r))"
      by (rule header_in_suffixed)
    with sentiment show False ..
  next
    case 6
    from l(2) have "sublist ?h (js ''Observed Patterns:'')" unfolding 6 .
    with literal_without_header(2) show False ..
  next
    case 7
    from l(2) have "\<exists>x \<in> set (observedPatterns r). sublist ?h x"
      unfolding 7 by (rule header_in_bullets)
    with strings show False by auto
  next
    case 8
    from l(2) have "sublist ?h (js ''Key Quotes:'')" unfolding 8 .
    with literal_without_header(3) show False ..
  next
    case 9
    from l(2) have "\<exists>x \<in> set (keyQuotes r). sublist ?h x"
      unfolding 9 by (rule header_in_quotes)
    with strings show False by auto
  next
    case 10
    from l(2) have "sublist ?h (js ''Recommendations:'')" unfolding 10 .
    with literal_without_header(4) show False ..
  next
    case 11
    from l(2) have "\<exists>x \<in> set (recommendations r). sublist ?h x"
      unfolding 11 by (rule header_in_bullets)
    with strings show False by auto
  next
    case 12
    from l(2) have "sublist ?h (js ''    '')" unfolding 12 .
    with literal_without_header(5) show False ..
  qed
qed

lemma conditionsSection_in_content:
  "sublist (conditionsSection r) (reportContent numberToString toLocaleString r)"
proof -
  have "reportContent numberToString toLocaleString r =
     (js ''Mental Health Assessment Report'' @
      [10] @ js ''Generated on: '' @ toLocaleString (analysisDate r) @
      [10, 10] @ js ''Mood Score: '' @ numberToString (moodScore r) @ js ''/10'' @
      [10] @ js ''Sentiment Score: '' @ numberToString (sentimentScore r) @ js ''/10'' @
      [10, 10] @ js ''Observed Patterns:'' @
      [10] @ join [10] (map (\<lambda>pattern. js ''- '' @ pattern) (observedPatterns r)) @
      [10, 10]) @ conditionsSection r @
     ([10, 10] @ js ''Key Quotes:'' @
      [10] @ join [10] (map (\<lambda>quote. js ''- \"'' @ quote @ js ''\"'') (keyQuotes r)) @
      [10, 10] @ js ''Recommendations:'' @
      rev (dropWhile isWhiteSpace
            (rev ([10] @ join [10] (map (\<lambda>rec. js ''- '' @ rec) (recommendations r))))))"
    by (simp add: reportContent_layout)
  then show ?thesis
    by (metis sublist_appendI)
qed


subsection \<open>The transition system\<close>

lemmas run_eval = run_def initialProvider_def runEffects_def greetingCallback_def
  sendMessage_begin_nonblank nonblank_samples toTurn_def Let_def

text \<open>Every event but the greeting timer leaves the messages there are in place.\<close>

lemma step_keeps_messages:
  assumes "\<And>uid now. ev \<noteq> GreetingTimeout uid now"
  shows "prefix (messages s) (messages (step s ev))"
proof (cases ev)
  case (SendMessage str uid now)
  then show ?thesis
    by (simp add: sendMessage_begin_def Let_def)
next
  case (ChatSettles i outcome uid now)
  then show ?thesis
    by (auto simp: sendMessage_resume_messages split: prod.splits sum.splits)
next
  case (ReportSettles i outcome now)
  then show ?thesis
    by (auto simp: generateReport_resume_def Let_def split: prod.splits sum.splits option.splits)
qed (use assms in \<open>auto simp: runEffects_def Let_def generateReport_begin_def clearError_def\<close>)

section \<open>The claims\<close>

text \<open>
  C1. The turn list of a chat turn should hold every message of the current transcript.
  In \<open>staleRefTrace\<close> the second call reads the reference before the effect of lines
  51 to 53 has run again: its turn list is the greeting and its own message, while the
  transcript holds the message of the first call between them. (With the reference up to
  date the turn list is the whole transcript: \<open>sendMessage_history_in_sync\<close>.)
\<close>

theorem sendMessage_history_stale_ref:
  "map fst (pendingChat (run staleRefTrace)) =
     [[\<lparr>role = RoleModel, content = js ''Hi there! How are you feeling today?''\<rparr>,
       \<lparr>role = RoleUser, content = js ''I feel anxious''\<rparr>],
      [\<lparr>role = RoleModel, content = js ''Hi there! How are you feeling today?''\<rparr>,
       \<lparr>role = RoleUser, content = js ''I cannot sleep''\<rparr>]]
   \<and> map toTurn (messages (run staleRefTrace)) =
     [\<lparr>role = RoleModel, content = js ''Hi there! How are you feeling today?''\<rparr>,
      \<lparr>role = RoleUser, content = js ''I feel anxious''\<rparr>,
      \<lparr>role = RoleUser, content = js ''I cannot sleep''\<rparr>]"
  by (simp add: staleRefTrace_def run_eval)

text \<open>
  C2. The message list should only ever grow at its end. In \<open>earlySendTrace\<close> a user
  message is in the list when the greeting timer fires; the callback sets the list to the
  greeting alone and the user message is gone. (No other event removes a message:
  \<open>step_keeps_messages\<close>.)
\<close>

theorem greeting_replaces_transcript:
  "messages (run earlySendTrace) =
     [\<lparr>id_msg = js ''m1'', content = js ''I feel anxious'', sender = User,
       timestamp = js ''2024-01-01T00:00:00.200Z''\<rparr>]
   \<and> messages (run (earlySendTrace @ [GreetingTimeout (js ''m0'') (js ''2024-01-01T00:00:00.500Z'')])) =
     [\<lparr>id_msg = js ''m0'', content = js ''Hi there! How are you feeling today?'', sender = Bot,
       timestamp = js ''2024-01-01T00:00:00.500Z''\<rparr>]"
  by (simp add: earlySendTrace_def run_eval)

text \<open>
  C3, as the claim states it, fails: when the backend returns the text \<open>null\<close>, the text
  parses, \<open>setReport\<close> is given \<open>null\<close>, and the report is absent after the call, also when
  a report was there before.
\<close>

theorem generateReport_null_report:
  "report (generateReport nullReply (js ''2024-01-01T00:00:00.000Z'') sampleState) = JNull
   \<and> report (generateReport nullReply (js ''2024-01-01T00:00:00.000Z'')
        (sampleState\<lparr>report := thrownErrorReport (js ''2023-12-31T00:00:00.000Z'')\<rparr>)) = JNull"
  by (simp add: generateReport_unfold generateReport_resume_report hf_null parse_null
      sample_texts_nonempty)

text \<open>
  C3, amended. Every settled call of \<open>generateReport\<close> sets the report: to the object of
  the error branch when the backend call throws, to the object of the parse-failure
  branch when the returned text is not JSON, and to the parsed value otherwise. So the
  report is absent afterwards exactly when the returned text parses to \<open>null\<close>.
\<close>

theorem generateReport_report_installed:
  "report (generateReport_resume (generateContentFromHF_resume prompt outcome) now s) =
     (case generateContentFromHF_resume prompt outcome of
        Inl e \<Rightarrow> thrownErrorReport now
      | Inr reportJson \<Rightarrow>
          (case JSON_parse reportJson of
             Some reportData \<Rightarrow> reportData
           | None \<Rightarrow> parseFailureReport now))
   \<and> (report (generateReport_resume (generateContentFromHF_resume prompt outcome) now s) = JNull
        \<longleftrightarrow> (\<exists>reportJson. generateContentFromHF_resume prompt outcome = Inr reportJson
                          \<and> JSON_parse reportJson = Some JNull))"
proof -
  have "thrownErrorReport now \<noteq> JNull" "parseFailureReport now \<noteq> JNull"
    by (simp_all add: thrownErrorReport_def parseFailureReport_def)
  then show ?thesis
    unfolding generateReport_resume_HF_report
    by (auto split: sum.splits option.splits)
qed

theorem generateReport_report_installed_witness:
  "report (generateReport proseReply (js ''2024-01-01T00:00:05.000Z'') sampleState)
     = parseFailureReport (js ''2024-01-01T00:00:05.000Z'')
   \<and> report (generateReport FetchRejects (js ''2024-01-01T00:00:05.000Z'') sampleState)
     = thrownErrorReport (js ''2024-01-01T00:00:05.000Z'')
   \<and> report (generateReport proseReply (js ''2024-01-01T00:00:05.000Z'') sampleState) \<noteq> JNull
   \<and> report (generateReport FetchRejects (js ''2024-01-01T00:00:05.000Z'') sampleState) \<noteq> JNull"
  using
    generateReport_report_installed [of "buildPrompt (map toTurn (messagesRef sampleState)) reportPrompt"
      proseReply "js ''2024-01-01T00:00:05.000Z''" "sampleState\<lparr>isReportGenerating := True, error := None\<rparr>"]
    generateReport_report_installed [of "buildPrompt (map toTurn (messagesRef sampleState)) reportPrompt"
      FetchRejects "js ''2024-01-01T00:00:05.000Z''" "sampleState\<lparr>isReportGenerating := True, error := None\<rparr>"]
  by (simp add: generateReport_unfold hf_prose hf_rejects parse_prose
      parseFailureReport_def thrownErrorReport_def)

text \<open>
  C4, as the claim states it, fails: the parsed value is set as it is, so a mood score
  of 42 in the returned JSON is the mood score of the report.
\<close>

theorem generateReport_score_out_of_range:
  "getMember (report (generateReport outOfRangeReply (js ''2024-01-01T00:00:05.000Z'') sampleState))
     (js ''moodScore'') = Some (JNum 42)
   \<and> \<not> scoresInRange (report (generateReport outOfRangeReply (js ''2024-01-01T00:00:05.000Z'') sampleState))"
proof -
  have "report (generateReport outOfRangeReply (js ''2024-01-01T00:00:05.000Z'') sampleState)
      = JObj [(js ''observedPatterns'', JArr []), (js ''tentativeConditions'', JArr []),
                 (js ''moodScore'', JNum 42), (js ''sentimentScore'', JNum 5),
                 (js ''keyQuotes'', JArr []), (js ''recommendations'', JArr []),
                 (js ''analysisDate'', JStr (js ''2024-01-01T00:00:00.000Z''))]"
    by (simp add: generateReport_unfold generateReport_resume_report hf_oor parse_oor
        sample_texts_nonempty)
  then show ?thesis
    by (simp add: scoresInRange_def isScore_def js_def)
qed

text \<open>
  C4, amended. On the failure paths both scores of the report are 5. On the parse-success
  path the report is the parsed value, not validated: its scores are integers from 1 to
  10 exactly when those of the returned JSON are, once \<open>JSON.parse\<close> has rounded them to
  doubles (a score written \<open>10.000000000000000001\<close> is the score 10).
\<close>

theorem generateReport_scores:
  "(scoresInRange (report (generateReport_resume (generateContentFromHF_resume prompt outcome) now s))
     \<longleftrightarrow>
     (case generateContentFromHF_resume prompt outcome of
        Inl e \<Rightarrow> True
      | Inr reportJson \<Rightarrow>
          (case JSON_parse reportJson of
             None \<Rightarrow> True
           | Some reportData \<Rightarrow> scoresInRange reportData)))
   \<and> (reportFailure (generateContentFromHF_resume prompt outcome) \<longrightarrow>
        getMember (report (generateReport_resume (generateContentFromHF_resume prompt outcome) now s))
          (js ''moodScore'') = Some (JNum 5)
        \<and> getMember (report (generateReport_resume (generateContentFromHF_resume prompt outcome) now s))
          (js ''sentimentScore'') = Some (JNum 5))"
proof -
  have "scoresInRange (report (generateReport_resume (generateContentFromHF_resume prompt outcome) now s))
     \<longleftrightarrow>
     (case generateContentFromHF_resume prompt outcome of
        Inl e \<Rightarrow> True
      | Inr reportJson \<Rightarrow>
          (case JSON_parse reportJson of
             None \<Rightarrow> True
           | Some reportData \<Rightarrow> scoresInRange reportData))"
    unfolding generateReport_resume_HF_report
    using placeholder_scores [OF thrownErrorReport_placeholder, of now]
      placeholder_scores [OF parseFailureReport_placeholder, of now]
    by (simp split: sum.splits option.splits)
  moreover have "getMember (report (generateReport_resume (generateContentFromHF_resume prompt outcome) now s))
          (js ''moodScore'') = Some (JNum 5)
        \<and> getMember (report (generateReport_resume (generateContentFromHF_resume prompt outcome) now s))
          (js ''sentimentScore'') = Some (JNum 5)"
    if "reportFailure (generateContentFromHF_resume prompt outcome)"
    using thrownErrorReport_placeholder [of now]
    unfolding generateReport_resume_failure [OF that] isDegradedPlaceholder_def by blast
  ultimately show ?thesis
    by blast
qed

theorem generateReport_scores_witness:
  "reportFailure (generateContentFromHF_resume (buildPrompt (map toTurn (messagesRef sampleState)) reportPrompt) proseReply)
   \<and> scoresInRange (report (generateReport proseReply (js ''2024-01-01T00:00:05.000Z'') sampleState))
   \<and> getMember (report (generateReport proseReply (js ''2024-01-01T00:00:05.000Z'') sampleState))
        (js ''moodScore'') = Some (JNum 5)
   \<and> getMember (report (generateReport proseReply (js ''2024-01-01T00:00:05.000Z'') sampleState))
        (js ''sentimentScore'') = Some (JNum 5)
   \<and> JSON_parse roundedScoreText
        = Some (JObj [(js ''moodScore'', JNum 10), (js ''sentimentScore'', JNum 5)])
   \<and> scoresInRange (report (generateReport roundedScoreReply (js ''2024-01-01T00:00:05.000Z'') sampleState))"
proof -
  have h: "reportFailure (generateContentFromHF_resume
      (buildPrompt (map toTurn (messagesRef sampleState)) reportPrompt) proseReply)"
    by (simp add: reportFailure_def hf_prose parse_prose)
  show ?thesis
    using h generateReport_scores [of "buildPrompt (map toTurn (messagesRef sampleState)) reportPrompt"
      proseReply "js ''2024-01-01T00:00:05.000Z''" "sampleState\<lparr>isReportGenerating := True, error := None\<rparr>"]
      generateReport_scores [of "buildPrompt (map toTurn (messagesRef sampleState)) reportPrompt"
      roundedScoreReply "js ''2024-01-01T00:00:05.000Z''" "sampleState\<lparr>isReportGenerating := True, error := None\<rparr>"]
    by (simp add: generateReport_unfold hf_prose parse_prose hf_rounded parse_rounded rounded_in_range)
qed

text \<open>
  C5. For a text that is not blank, \<open>sendMessage\<close> appends exactly one user message
  before the call to the backend is issued (the call is issued: the second component is
  not \<open>None\<close>), and when the call settles, whatever \<open>fetch\<close> came back with and
  whatever the state is by then, exactly one message of the bot is appended. For a call
  with nothing in between, the transcript grows by exactly these two messages.
\<close>

theorem sendMessage_one_user_one_bot:
  assumes "trim str \<noteq> []"
  shows "messages (fst (sendMessage_begin str uid now s))
           = messages s @ [\<lparr>id_msg = uid, content = str, sender = User, timestamp = now\<rparr>]
       \<and> snd (sendMessage_begin str uid now s) \<noteq> None
       \<and> (\<exists>botMessage. sender botMessage = Bot \<and>
            messages (sendMessage_resume (generateContentFromHF_resume prompt outcome) uid' now' s')
              = messages s' @ [botMessage])
       \<and> (\<exists>botMessage. sender botMessage = Bot \<and>
            messages (sendMessage str uid now outcome uid' now' s)
              = messages s @ [\<lparr>id_msg = uid, content = str, sender = User, timestamp = now\<rparr>, botMessage])"
proof -
  let ?u = "\<lparr>id_msg = uid, content = str, sender = User, timestamp = now\<rparr>"
  let ?s1 = "s\<lparr>messages := messages s @ [?u], isLoading := True, error := None\<rparr>"
  let ?p = "buildPrompt (map toTurn (messagesRef s @ [?u])) chatSystemPrompt"
  have b: "sendMessage_begin str uid now s = (?s1, Some (map toTurn (messagesRef s @ [?u]), chatSystemPrompt))"
    using assms by (rule sendMessage_begin_nonblank)
  have whole: "sendMessage str uid now outcome uid' now' s
      = sendMessage_resume (generateContentFromHF_resume ?p outcome) uid' now' ?s1"
    using assms by (rule sendMessage_unfold)
  obtain m where m: "sender m = Bot"
      "messages (sendMessage_resume (generateContentFromHF_resume ?p outcome) uid' now' ?s1) = messages ?s1 @ [m]"
    using sendMessage_resume_appends_bot by blast
  have "messages (sendMessage str uid now outcome uid' now' s) = messages ?s1 @ [m]"
    unfolding whole by (rule m(2))
  then have "messages (sendMessage str uid now outcome uid' now' s) = messages s @ [?u, m]"
    by simp
  with m(1) have last: "\<exists>botMessage. sender botMessage = Bot \<and>
            messages (sendMessage str uid now outcome uid' now' s) = messages s @ [?u, botMessage]"
    by blast
  show ?thesis
    using last sendMessage_resume_appends_bot [of prompt outcome uid' now' s'] by (simp add: b)
qed

theorem sendMessage_one_user_one_bot_witness:
  "trim (js ''I feel anxious'') \<noteq> []
   \<and> messages (sendMessage (js ''I feel anxious'') (js ''m1'') (js ''t1'') thatSoundsHard (js ''m2'') (js ''t2'') sampleState)
     = messages sampleState @
       [\<lparr>id_msg = js ''m1'', content = js ''I feel anxious'', sender = User, timestamp = js ''t1''\<rparr>,
        \<lparr>id_msg = js ''m2'', content = js ''That sounds hard.'', sender = Bot, timestamp = js ''t2''\<rparr>]
   \<and> messages (sendMessage (js ''I feel anxious'') (js ''m1'') (js ''t1'') FetchRejects (js ''m2'') (js ''t2'') sampleState)
     = messages sampleState @
       [\<lparr>id_msg = js ''m1'', content = js ''I feel anxious'', sender = User, timestamp = js ''t1''\<rparr>,
        apologyMessage (js ''m2'') (js ''t2'')]"
proof -
  have h: "trim (js ''I feel anxious'') \<noteq> []"
    by (simp add: string_eval)
  have r1: "generateContentFromHF_resume (buildPrompt ms sp) thatSoundsHard = Inr (js ''That sounds hard.'')" for ms sp
    by (simp add: thatSoundsHard_def hf_eval string_eval)
  have nonempty: "js ''That sounds hard.'' \<noteq> []"
    by (simp add: js_def)
  show ?thesis
    using h sendMessage_one_user_one_bot [OF h, of "js ''m1''" "js ''t1''" sampleState]
    by (simp add: sendMessage_def sendMessage_begin_def sendMessage_resume_def r1 hf_rejects nonempty Let_def)
qed

text \<open>
  C6. When the call to the backend throws, \<open>sendMessage\<close> sets the error to the retry
  message and appends the apology of the bot, both, with the texts of lines 122 and 128;
  and \<open>isLoading\<close> is false when the call has settled, whatever the result. Stated for
  the part after the \<open>await\<close> on any state, and for a whole call with nothing in between.
\<close>

theorem sendMessage_failure_visible:
  assumes "trim str \<noteq> []"
  shows "isLoading (sendMessage_resume result uid' now' s') = False
       \<and> isLoading (sendMessage str uid now outcome uid' now' s) = False
       \<and> (\<forall>e. generateContentFromHF_resume prompt outcome = Inl e \<longrightarrow>
            error (sendMessage_resume (generateContentFromHF_resume prompt outcome) uid' now' s')
              = Some (js ''Failed to get response. Please try again.'')
            \<and> messages (sendMessage_resume (generateContentFromHF_resume prompt outcome) uid' now' s')
              = messages s' @
                  [\<lparr>id_msg = uid',
                    content = js ''I'm sorry, I'm having trouble responding right now. Could you try again?'',
                    sender = Bot, timestamp = now'\<rparr>])
       \<and> (\<forall>e. generateContentFromHF_resume
                  (buildPrompt (map toTurn (messagesRef s @
                     [\<lparr>id_msg = uid, content = str, sender = User, timestamp = now\<rparr>])) chatSystemPrompt)
                  outcome = Inl e \<longrightarrow>
            error (sendMessage str uid now outcome uid' now' s)
              = Some (js ''Failed to get response. Please try again.'')
            \<and> messages (sendMessage str uid now outcome uid' now' s)
              = messages s @
                  [\<lparr>id_msg = uid, content = str, sender = User, timestamp = now\<rparr>,
                   \<lparr>id_msg = uid',
                    content = js ''I'm sorry, I'm having trouble responding right now. Could you try again?'',
                    sender = Bot, timestamp = now'\<rparr>])"
  unfolding sendMessage_unfold [OF assms]
  by (auto simp: sendMessage_resume_isLoading sendMessage_resume_thrown apologyMessage_def)

theorem sendMessage_failure_visible_witness:
  "trim (js ''I feel anxious'') \<noteq> []
   \<and> generateContentFromHF_resume
        (buildPrompt (map toTurn (messagesRef sampleState @
           [\<lparr>id_msg = js ''m1'', content = js ''I feel anxious'', sender = User, timestamp = js ''t1''\<rparr>]))
           chatSystemPrompt)
        (FetchResponse 503 (Some (JObj [(js ''error'', JStr (js ''Model is loading''))])))
       = Inl (ApiError 503)
   \<and> error (sendMessage (js ''I feel anxious'') (js ''m1'') (js ''t1'')
        (FetchResponse 503 (Some (JObj [(js ''error'', JStr (js ''Model is loading''))])))
        (js ''m2'') (js ''t2'') sampleState)
       = Some (js ''Failed to get response. Please try again.'')
   \<and> messages (sendMessage (js ''I feel anxious'') (js ''m1'') (js ''t1'')
        (FetchResponse 503 (Some (JObj [(js ''error'', JStr (js ''Model is loading''))])))
        (js ''m2'') (js ''t2'') sampleState)
       = messages sampleState @
           [\<lparr>id_msg = js ''m1'', content = js ''I feel anxious'', sender = User, timestamp = js ''t1''\<rparr>,
            \<lparr>id_msg = js ''m2'',
              content = js ''I'm sorry, I'm having trouble responding right now. Could you try again?'',
              sender = Bot, timestamp = js ''t2''\<rparr>]
   \<and> isLoading (sendMessage (js ''I feel anxious'') (js ''m1'') (js ''t1'')
        (FetchResponse 503 (Some (JObj [(js ''error'', JStr (js ''Model is loading''))])))
        (js ''m2'') (js ''t2'') sampleState) = False"
proof -
  have h: "trim (js ''I feel anxious'') \<noteq> []"
    by (simp add: string_eval)
  have t: "generateContentFromHF_resume p
        (FetchResponse 503 (Some (JObj [(js ''error'', JStr (js ''Model is loading''))]))) = Inl (ApiError 503)" for p
    by (simp add: generateContentFromHF_resume_def response_ok_def)
  show ?thesis
    using h sendMessage_failure_visible [OF h, where result = "Inl NetworkError" and uid' = "js ''m2''"
        and now' = "js ''t2''" and s' = sampleState and uid = "js ''m1''" and now = "js ''t1''"
        and outcome = "FetchResponse 503 (Some (JObj [(js ''error'', JStr (js ''Model is loading''))]))"
        and s = sampleState and prompt = "[]"]
    by (simp add: t)
qed

text \<open>
  C7. On every failure path of \<open>generateReport\<close> (the backend call throws, or the
  returned text does not parse) the report that is set is the degraded placeholder: both
  scores 5, no key quotes, no tentative conditions, and the one fallback recommendation.
\<close>

theorem generateReport_failure_placeholder:
  assumes "reportFailure (generateContentFromHF_resume prompt outcome)"
  shows "isDegradedPlaceholder
           (report (generateReport_resume (generateContentFromHF_resume prompt outcome) now s))
       \<and> report (generateReport_resume (generateContentFromHF_resume prompt outcome) now s) =
           JObj [(js ''observedPatterns'', JArr [JStr (js ''Error generating comprehensive report'')]),
                 (js ''tentativeConditions'', JArr []),
                 (js ''moodScore'', JNum 5),
                 (js ''sentimentScore'', JNum 5),
                 (js ''keyQuotes'', JArr []),
                 (js ''recommendations'', JArr [JStr (js ''Consider a general wellness check-in'')]),
                 (js ''analysisDate'', JStr now)]"
proof (cases "generateContentFromHF_resume prompt outcome")
  case (Inl e)
  have "report (generateReport_resume (Inl e) now s) = thrownErrorReport now"
    by (simp add: generateReport_resume_report)
  then show ?thesis
    unfolding Inl using thrownErrorReport_placeholder [of now] by (simp add: thrownErrorReport_def)
next
  case (Inr reportJson)
  then have "reportJson \<noteq> []"
    by (rule generateContentFromHF_resume_nonempty)
  moreover from assms have "JSON_parse reportJson = None"
    unfolding Inr by (simp add: reportFailure_def)
  ultimately have "report (generateReport_resume (Inr reportJson) now s) = parseFailureReport now"
    by (simp add: generateReport_resume_report)
  then show ?thesis
    unfolding Inr using parseFailureReport_placeholder [of now] by (simp add: parseFailureReport_def)
qed

theorem generateReport_failure_placeholder_witness:
  "reportFailure (generateContentFromHF_resume (buildPrompt (map toTurn (messagesRef sampleState)) reportPrompt) proseReply)
   \<and> reportFailure (generateContentFromHF_resume (buildPrompt (map toTurn (messagesRef sampleState)) reportPrompt) FetchRejects)
   \<and> isDegradedPlaceholder (report (generateReport proseReply (js ''2024-01-01T00:00:00.000Z'') sampleState))
   \<and> isDegradedPlaceholder (report (generateReport FetchRejects (js ''2024-01-01T00:00:00.000Z'') sampleState))"
proof -
  let ?p = "buildPrompt (map toTurn (messagesRef sampleState)) reportPrompt"
  have h1: "reportFailure (generateContentFromHF_resume ?p proseReply)"
    by (simp add: reportFailure_def hf_prose parse_prose)
  have h2: "reportFailure (generateContentFromHF_resume ?p FetchRejects)"
    by (simp add: reportFailure_def hf_rejects)
  show ?thesis
    using h1 h2
      generateReport_failure_placeholder [OF h1, of "js ''2024-01-01T00:00:00.000Z''"
        "sampleState\<lparr>isReportGenerating := True, error := None\<rparr>"]
      generateReport_failure_placeholder [OF h2, of "js ''2024-01-01T00:00:00.000Z''"
        "sampleState\<lparr>isReportGenerating := True, error := None\<rparr>"]
    unfolding generateReport_unfold by blast
qed

text \<open>
  C8. For a text whose trimmed form is empty, \<open>sendMessage\<close> does nothing: no call is
  issued and the state, every field of it, is what it was.
\<close>

theorem sendMessage_blank_noop:
  "trim str = [] \<Longrightarrow>
     sendMessage_begin str uid now s = (s, None) \<and>
     sendMessage str uid now outcome uid' now' s = s"
  by (simp add: sendMessage_def sendMessage_begin_def)

theorem sendMessage_blank_noop_witness:
  "trim (js ''   '') = [] \<and> trim [] = [] \<and>
   sendMessage (js ''   '') (js ''m1'') (js ''t1'') thatSoundsHard (js ''m2'') (js ''t2'') sampleState = sampleState \<and>
   sendMessage [] (js ''m1'') (js ''t1'') FetchRejects (js ''m2'') (js ''t2'') sampleState = sampleState"
proof -
  have h1: "trim (js ''   '') = []" by (simp add: string_eval)
  have h2: "trim [] = []" by (simp add: trim_def)
  show ?thesis
    using h1 h2 sendMessage_blank_noop [OF h1, of "js ''m1''" "js ''t1''" sampleState thatSoundsHard "js ''m2''" "js ''t2''"]
      sendMessage_blank_noop [OF h2, of "js ''m1''" "js ''t1''" sampleState FetchRejects "js ''m2''" "js ''t2''"]
    by simp
qed

text \<open>
  C9. For every report of the declared type, the interpolated section of the tentative
  conditions is the empty string exactly when the list is empty; otherwise it is the
  header line \<open>Potential Conditions:\<close> with one bullet per condition, and the header
  line stands in the document. When the list is empty, the document reads
  \<open>Potential Conditions:\<close> nowhere, provided no string of the report and no printed
  date or score contains that text. The last conjunct is the whole document after
  trimming: the title, the timestamp, the two scores, the observed patterns, the section
  of the conditions, the key quotes and the recommendations are there for every report,
  in this order.
\<close>

theorem reportContent_sections:
  "(conditionsSection r = [] \<longleftrightarrow> tentativeConditions r = [])
   \<and> (tentativeConditions r \<noteq> [] \<longrightarrow>
        conditionsSection r =
          [10] @ js ''Potential Conditions:'' @
          [10] @ join [10] (map (\<lambda>condition. js ''- '' @ condition) (tentativeConditions r))
        \<and> sublist ([10] @ js ''Potential Conditions:'' @ [10])
              (reportContent numberToString toLocaleString r))
   \<and> (tentativeConditions r = []
        \<and> contentAvoids (js ''Potential Conditions:'') numberToString toLocaleString r \<longrightarrow>
        \<not> sublist (js ''Potential Conditions:'') (reportContent numberToString toLocaleString r))
   \<and> reportContent numberToString toLocaleString r =
       js ''Mental Health Assessment Report'' @
       [10] @ js ''Generated on: '' @ toLocaleString (analysisDate r) @
       [10, 10] @ js ''Mood Score: '' @ numberToString (moodScore r) @ js ''/10'' @
       [10] @ js ''Sentiment Score: '' @ numberToString (sentimentScore r) @ js ''/10'' @
       [10, 10] @ js ''Observed Patterns:'' @
       [10] @ join [10] (map (\<lambda>pattern. js ''- '' @ pattern) (observedPatterns r)) @
       [10, 10] @ conditionsSection r @
       [10, 10] @ js ''Key Quotes:'' @
       [10] @ join [10] (map (\<lambda>quote. js ''- \"'' @ quote @ js ''\"'') (keyQuotes r)) @
       [10, 10] @ js ''Recommendations:'' @
       rev (dropWhile isWhiteSpace
              (rev ([10] @ join [10] (map (\<lambda>rec. js ''- '' @ rec) (recommendations r)))))"
proof -
  have shape: "conditionsSection r =
          [10] @ js ''Potential Conditions:'' @
          [10] @ join [10] (map (\<lambda>condition. js ''- '' @ condition) (tentativeConditions r))"
    if "tentativeConditions r \<noteq> []"
    using that by (simp add: conditionsSection_def)
  have "js ''Potential Conditions:'' \<noteq> []"
    by (simp add: header_shape(1))
  then have omitted: "conditionsSection r = [] \<longleftrightarrow> tentativeConditions r = []"
    by (simp add: conditionsSection_def)
  have present: "sublist ([10] @ js ''Potential Conditions:'' @ [10])
      (reportContent numberToString toLocaleString r)"
    if "tentativeConditions r \<noteq> []"
  proof -
    have "prefix ([10] @ js ''Potential Conditions:'' @ [10]) (conditionsSection r)"
      unfolding shape [OF that] by simp
    then have "sublist ([10] @ js ''Potential Conditions:'' @ [10]) (conditionsSection r)"
      by (rule prefix_imp_sublist)
    then show ?thesis
      using conditionsSection_in_content by (rule sublist_trans)
  qed
  show ?thesis
    using omitted shape present reportContent_without_header [of r numberToString toLocaleString]
      reportContent_layout [of numberToString toLocaleString r]
    by blast
qed

theorem reportContent_sections_witness:
  "tentativeConditions calmReport = []
   \<and> contentAvoids (js ''Potential Conditions:'') sampleNumberToString sampleToLocaleString calmReport
   \<and> \<not> sublist (js ''Potential Conditions:'')
         (reportContent sampleNumberToString sampleToLocaleString calmReport)
   \<and> tentativeConditions anxiousReport \<noteq> []
   \<and> conditionsSection anxiousReport =
         [10] @ js ''Potential Conditions:'' @ [10] @ js ''- Mild anxiety'' @ [10] @ js ''- Insomnia''
   \<and> sublist ([10] @ js ''Potential Conditions:'' @ [10])
         (reportContent sampleNumberToString sampleToLocaleString anxiousReport)"
proof -
  have h1: "tentativeConditions calmReport = []"
    by (simp add: calmReport_def)
  have h2: "contentAvoids (js ''Potential Conditions:'') sampleNumberToString sampleToLocaleString calmReport"
    by (simp add: contentAvoids_def calmReport_def sampleNumberToString_def sampleToLocaleString_def
        js_def sublist_code)
  have h3: "tentativeConditions anxiousReport \<noteq> []"
    by (simp add: anxiousReport_def)
  have bullets: "join [10] (map (\<lambda>condition. js ''- '' @ condition) (tentativeConditions anxiousReport))
      = js ''- Mild anxiety'' @ [10] @ js ''- Insomnia''"
    by (simp add: anxiousReport_def js_def)
  have absent: "\<not> sublist (js ''Potential Conditions:'')
         (reportContent sampleNumberToString sampleToLocaleString calmReport)"
    using h1 h2 reportContent_sections [of calmReport sampleNumberToString sampleToLocaleString]
    by blast
  have present: "conditionsSection anxiousReport =
          [10] @ js ''Potential Conditions:'' @
          [10] @ join [10] (map (\<lambda>condition. js ''- '' @ condition) (tentativeConditions anxiousReport))
        \<and> sublist ([10] @ js ''Potential Conditions:'' @ [10])
              (reportContent sampleNumberToString sampleToLocaleString anxiousReport)"
    using h3 reportContent_sections [of anxiousReport sampleNumberToString sampleToLocaleString]
    by blast
  show ?thesis
    using h1 h2 h3 absent present by (simp add: bullets)
qed


text \<open>
  C10. The prompt the adapter sends, and the whole request, depend on the turn list only
  through the content of its last user turn: two calls that agree on it send the same
  request, whatever their system prompts and their other turns are.
\<close>

theorem prompt_depends_on_last_user_turn:
  assumes "lastUserContent msgs1 = lastUserContent msgs2"
  shows "buildPrompt msgs1 systemPrompt1 = buildPrompt msgs2 systemPrompt2
       \<and> buildRequest apiKey msgs1 systemPrompt1 = buildRequest apiKey msgs2 systemPrompt2"
proof -
  have key: "(case pop (filter (\<lambda>msg. role msg = RoleUser) msgs) of
                None \<Rightarrow> js ''undefined'' | Some msg \<Rightarrow> MessageInput.content msg)
           = (case lastUserContent msgs of None \<Rightarrow> js ''undefined'' | Some c \<Rightarrow> c)" for msgs
    by (simp add: lastUserContent_def pop_filter_find split: option.splits)
  have "buildPrompt msgs1 systemPrompt1 = buildPrompt msgs2 systemPrompt2"
    unfolding buildPrompt_def key assms ..
  then show ?thesis
    by (simp add: buildRequest_def)
qed

theorem prompt_depends_on_last_user_turn_witness:
  "lastUserContent
      [\<lparr>role = RoleModel, content = js ''Hi there! How are you feeling today?''\<rparr>,
       \<lparr>role = RoleUser, content = js ''I feel anxious''\<rparr>]
     = lastUserContent
      [\<lparr>role = RoleUser, content = js ''I feel anxious''\<rparr>,
       \<lparr>role = RoleModel, content = js ''Tell me more.''\<rparr>]
   \<and> buildRequest (js ''key'')
      [\<lparr>role = RoleModel, content = js ''Hi there! How are you feeling today?''\<rparr>,
       \<lparr>role = RoleUser, content = js ''I feel anxious''\<rparr>] chatSystemPrompt
     = buildRequest (js ''key'')
      [\<lparr>role = RoleUser, content = js ''I feel anxious''\<rparr>,
       \<lparr>role = RoleModel, content = js ''Tell me more.''\<rparr>] reportPrompt"
proof -
  have h: "lastUserContent
      [\<lparr>role = RoleModel, content = js ''Hi there! How are you feeling today?''\<rparr>,
       \<lparr>role = RoleUser, content = js ''I feel anxious''\<rparr>]
     = lastUserContent
      [\<lparr>role = RoleUser, content = js ''I feel anxious''\<rparr>,
       \<lparr>role = RoleModel, content = js ''Tell me more.''\<rparr>]"
    by (simp add: lastUserContent_def)
  show ?thesis
    using h prompt_depends_on_last_user_turn [OF h, of chatSystemPrompt reportPrompt "js ''key''"]
    by simp
qed

end
